theory Spec2Isabelle
  imports Complex_Main
begin

section \<open>Python values\<close>

text \<open>
  The handler only ever touches values that came out of a JSON decoder (the request body,
  the replies of the GitHub API) or string constants, so Python objects are modelled as
  JSON documents. \<open>JNull\<close> is Python's \<open>None\<close>; a dict is an association list whose
  keys are strings; a \<open>char\<close> stands for one character of a Python \<open>str\<close>.
\<close>

datatype pyfloat = Finite rat | Infinite bool | NaN

datatype json =
    JNull
  | JBool bool
  | JInt int
  | JFloat pyfloat
  | JStr string
  | JArr "json list"
  | JObj "(string \<times> json) list"

text \<open>
  Exceptions. The first four are raised by libraries and carry the library's message;
  the others are raised when an operation does not fit the value it is applied to, and
  name that value.
\<close>

datatype exn =
    JSONDecodeError string
  | RequestException string
  | HTTPError string
  | ClientError string
  | AttributeError json string
  | KeyError json json
  | InvalidURL json
  | IndexError json
  | TypeError json string

text \<open>Truth value of an object, as \<open>if x:\<close> and \<open>not x\<close> test it.\<close>

fun truthy :: "json \<Rightarrow> bool" where
  "truthy JNull = False"
| "truthy (JBool b) = b"
| "truthy (JInt i) = (i \<noteq> 0)"
| "truthy (JFloat f) = (f \<noteq> Finite 0)"
| "truthy (JStr s) = (s \<noteq> [])"
| "truthy (JArr xs) = (xs \<noteq> [])"
| "truthy (JObj kvs) = (kvs \<noteq> [])"

text \<open>\<open>x.get(key, default)\<close>: only a dict has the method.\<close>

definition dict_get :: "(string \<times> json) list \<Rightarrow> string \<Rightarrow> json \<Rightarrow> json" where
  "dict_get kvs k d = (case map_of kvs k of None \<Rightarrow> d | Some v \<Rightarrow> v)"

fun py_get :: "json \<Rightarrow> string \<Rightarrow> json \<Rightarrow> exn + json" where
  "py_get (JObj kvs) k d = Inr (dict_get kvs k d)"
| "py_get x k d = Inl (AttributeError x ''get'')"

text \<open>\<open>x[key]\<close> with a string key.\<close>

fun py_item :: "json \<Rightarrow> string \<Rightarrow> exn + json" where
  "py_item (JObj kvs) k =
     (case map_of kvs k of None \<Rightarrow> Inl (KeyError (JObj kvs) (JStr k)) | Some v \<Rightarrow> Inr v)"
| "py_item x k = Inl (TypeError x ''subscript'')"

text \<open>\<open>x[0]\<close>.\<close>

fun py_first :: "json \<Rightarrow> exn + json" where
  "py_first (JArr []) = Inl (IndexError (JArr []))"
| "py_first (JArr (x # xs)) = Inr x"
| "py_first (JStr []) = Inl (IndexError (JStr []))"
| "py_first (JStr (c # cs)) = Inr (JStr [c])"
| "py_first (JObj kvs) = Inl (KeyError (JObj kvs) (JInt 0))"
| "py_first x = Inl (TypeError x ''subscript'')"

text \<open>\<open>x[:7]\<close>.\<close>

fun py_slice7 :: "json \<Rightarrow> exn + json" where
  "py_slice7 (JStr s) = Inr (JStr (take 7 s))"
| "py_slice7 (JArr xs) = Inr (JArr (take 7 xs))"
| "py_slice7 x = Inl (TypeError x ''slice'')"

text \<open>The elements \<open>for a in x\<close> visits: a dict yields its keys, a string its characters.\<close>

fun py_iter :: "json \<Rightarrow> exn + json list" where
  "py_iter (JArr xs) = Inr xs"
| "py_iter (JStr s) = Inr (map (\<lambda>c. JStr [c]) s)"
| "py_iter (JObj kvs) = Inr (map (\<lambda>kv. JStr (fst kv)) kvs)"
| "py_iter x = Inl (TypeError x ''iterate'')"

subsection \<open>Decimal text of an integer\<close>

definition digit :: "nat \<Rightarrow> char" where
  "digit d = (''0123456789'' ! d)"

function str_nat :: "nat \<Rightarrow> string" where
  "str_nat n = (if n < 10 then [digit n] else str_nat (n div 10) @ [digit (n mod 10)])"
  by pat_completeness auto
termination
  by (relation "measure id") auto

declare str_nat.simps [simp del]

definition str_int :: "int \<Rightarrow> string" where
  "str_int i = (if i < 0 then CHR ''-'' # str_nat (nat (- i)) else str_nat (nat i))"

section \<open>The environment of one invocation\<close>

text \<open>
  Everything the handler reads from outside is a field of the environment: the
  configuration taken from the process environment, the library functions whose code is
  not part of the repository, the clock, and the answers of the two remote services.
  The handler reaches each call site at most once per invocation, so one answer per call
  site (depending on what is sent there) describes any behaviour of the remote side.
\<close>

datatype site = DeployRuns | Artifacts | Download | Dispatch | Correlate

datatype clock_site = AuditId | Fallback

datatype request =
    Get string "(string \<times> string) list" "(string \<times> json) list"
  | Post string "(string \<times> string) list" json

datatype call =
    Request site request
  | Sleep nat
  | PutItem string "(string \<times> json) list"
  | UpdateItem string "(string \<times> json) list" string "(string \<times> string) list"
      "(string \<times> json) list"
  | Print string

text \<open>
  What \<open>requests\<close> hands back: the status line, the URL, and what \<open>.json()\<close> gives.
\<close>

record http_response =
  status_code :: int
  reason_phrase :: string
  response_url :: string
  json_result :: "exn + json"

record env =
  GITHUB_TOKEN :: "string option"
  GITHUB_REPO_OWNER :: string
  GITHUB_REPO_NAME :: string
  audit_table_name :: string
  json_loads :: "string \<Rightarrow> exn + json"
  json_dumps :: "json \<Rightarrow> string"
  py_repr :: "json \<Rightarrow> string"
  interp_text :: "exn \<Rightarrow> string"
  requests_reply :: "site \<Rightarrow> request \<Rightarrow> exn + http_response"
  dynamodb_reply :: "call \<Rightarrow> exn option"
  utcnow_timestamp :: "clock_site \<Rightarrow> int"
  utcnow_isoformat :: string

definition WORKFLOW_FILE :: string where
  "WORKFLOW_FILE = ''rollback.yml''"

definition WORKFLOW_BRANCH :: string where
  "WORKFLOW_BRANCH = ''roll-back''"

text \<open>
  \<open>str(x)\<close> and f-string interpolation. The text of a float, a list or a dict is the
  interpreter's \<open>repr\<close>, taken from the environment.
\<close>

fun py_str :: "env \<Rightarrow> json \<Rightarrow> string" where
  "py_str E JNull = ''None''"
| "py_str E (JBool b) = (if b then ''True'' else ''False'')"
| "py_str E (JInt i) = str_int i"
| "py_str E (JStr s) = s"
| "py_str E x = py_repr E x"

text \<open>\<open>str(e)\<close> of a caught exception.\<close>

fun str_exn :: "env \<Rightarrow> exn \<Rightarrow> string" where
  "str_exn E (JSONDecodeError m) = m"
| "str_exn E (RequestException m) = m"
| "str_exn E (HTTPError m) = m"
| "str_exn E (ClientError m) = m"
| "str_exn E e = interp_text E e"

text \<open>
  \<open>Response.raise_for_status()\<close> of the \<open>requests\<close> library: it raises for the status
  codes 400 to 599 and for no other.
\<close>

definition raise_for_status :: "http_response \<Rightarrow> exn + unit" where
  "raise_for_status r =
     (if 400 \<le> status_code r \<and> status_code r < 500
      then Inl (HTTPError (str_int (status_code r) @ '' Client Error: '' @ reason_phrase r
                           @ '' for url: '' @ response_url r))
      else if 500 \<le> status_code r \<and> status_code r < 600
      then Inl (HTTPError (str_int (status_code r) @ '' Server Error: '' @ reason_phrase r
                           @ '' for url: '' @ response_url r))
      else Inr ())"

section \<open>Effects\<close>

text \<open>
  A computation takes the list of calls made so far and returns its result, a value or
  the exception it raised, with the calls extended by its own.
\<close>

type_synonym 'a io = "call list \<Rightarrow> (exn + 'a) \<times> call list"

definition io_return :: "'a \<Rightarrow> 'a io" where
  "io_return x = (\<lambda>t. (Inr x, t))"

definition io_raise :: "exn \<Rightarrow> 'a io" where
  "io_raise e = (\<lambda>t. (Inl e, t))"

definition io_lift :: "exn + 'a \<Rightarrow> 'a io" where
  "io_lift r = (\<lambda>t. (r, t))"

definition io_bind :: "'a io \<Rightarrow> ('a \<Rightarrow> 'b io) \<Rightarrow> 'b io" where
  "io_bind m f = (\<lambda>t. case m t of (Inl e, t') \<Rightarrow> (Inl e, t') | (Inr x, t') \<Rightarrow> f x t')"

definition io_try :: "'a io \<Rightarrow> (exn \<Rightarrow> 'a io) \<Rightarrow> 'a io" where
  "io_try m h = (\<lambda>t. case m t of (Inl e, t') \<Rightarrow> h e t' | (Inr x, t') \<Rightarrow> (Inr x, t'))"

definition io_call :: "call \<Rightarrow> unit io" where
  "io_call c = (\<lambda>t. (Inr (), t @ [c]))"

definition print :: "string \<Rightarrow> unit io" where
  "print s = io_call (Print s)"

definition sleep :: "nat \<Rightarrow> unit io" where
  "sleep n = io_call (Sleep n)"

text \<open>
  \<open>requests.get\<close> and \<open>requests.post\<close>. The URL is whatever object the caller passes;
  one that is not a string has no scheme once converted to text, and the library raises
  before anything is sent.
\<close>

definition requests_get ::
  "env \<Rightarrow> site \<Rightarrow> json \<Rightarrow> (string \<times> string) list \<Rightarrow> (string \<times> json) list \<Rightarrow> http_response io" where
  "requests_get E s u hs ps =
     (case u of
        JStr a \<Rightarrow> io_bind (io_call (Request s (Get a hs ps)))
                    (\<lambda>_. io_lift (requests_reply E s (Get a hs ps)))
      | _ \<Rightarrow> io_raise (InvalidURL u))"

definition requests_post ::
  "env \<Rightarrow> site \<Rightarrow> string \<Rightarrow> (string \<times> string) list \<Rightarrow> json \<Rightarrow> http_response io" where
  "requests_post E s a hs payload =
     io_bind (io_call (Request s (Post a hs payload)))
       (\<lambda>_. io_lift (requests_reply E s (Post a hs payload)))"

text \<open>\<open>table.put_item\<close> and \<open>table.update_item\<close> of the audit table.\<close>

definition dynamodb_call :: "env \<Rightarrow> call \<Rightarrow> unit io" where
  "dynamodb_call E c =
     io_bind (io_call c)
       (\<lambda>_. case dynamodb_reply E c of None \<Rightarrow> io_return () | Some e \<Rightarrow> io_raise e)"

section \<open>The rollback trigger\<close>

record response =
  statusCode :: int
  headers :: "(string \<times> string) list"
  body :: string

text \<open>The request headers and the repository's API address, built the same way at every call.\<close>

definition api_headers :: "env \<Rightarrow> (string \<times> string) list" where
  "api_headers E =
     [(''Authorization'', ''Bearer '' @ (case GITHUB_TOKEN E of None \<Rightarrow> ''None'' | Some t \<Rightarrow> t)),
      (''Accept'', ''application/vnd.github.v3+json'')]"

definition api_repo :: "env \<Rightarrow> string" where
  "api_repo E = ''https://api.github.com/repos/'' @ GITHUB_REPO_OWNER E @ ''/'' @ GITHUB_REPO_NAME E"

definition error_response :: "env \<Rightarrow> int \<Rightarrow> string \<Rightarrow> response" where
  "error_response E code message =
     \<lparr>statusCode = code,
      headers = [(''Content-Type'', ''application/json''),
                 (''Access-Control-Allow-Origin'', ''*'')],
      body = json_dumps E (JObj [(''status'', JStr ''error''), (''message'', JStr message)])\<rparr>"

subsection \<open>Version resolver\<close>

text \<open>
  The loop over the artifacts of the latest run. The first artifact with the name of the
  environment's deployment state ends it: its archive is requested, the reply is not
  looked at, and the short commit hash of the run is the result.
\<close>

fun find_artifact :: "env \<Rightarrow> json \<Rightarrow> json \<Rightarrow> json list \<Rightarrow> json io" where
  "find_artifact E environment latest_run [] = io_return JNull"
| "find_artifact E environment latest_run (artifact # rest) =
     io_bind (io_lift (py_item artifact ''name'')) (\<lambda>name.
       if name = JStr (''last-successful-deployment-'' @ py_str E environment)
       then
         io_bind (io_lift (py_item artifact ''archive_download_url'')) (\<lambda>download_url.
         io_bind (requests_get E Download download_url (api_headers E) []) (\<lambda>download_response.
         io_bind (io_lift (py_item latest_run ''head_sha'')) (\<lambda>head_sha.
         io_lift (py_slice7 head_sha))))
       else find_artifact E environment latest_run rest)"


text \<open>
  The resolver in two parts: the block under \<open>try\<close>, and the function itself, which
  turns every exception of the block into a log line and the result \<open>None\<close>.
\<close>

definition get_last_successful_image_tag_try :: "env \<Rightarrow> json \<Rightarrow> json io" where
  "get_last_successful_image_tag_try E environment =
     io_bind (requests_get E DeployRuns
                (JStr (api_repo E @ ''/actions/workflows/deploy.yml/runs'')) (api_headers E)
                [(''status'', JStr ''success''), (''per_page'', JInt 5)]) (\<lambda>response.
     io_bind (io_lift (raise_for_status response)) (\<lambda>_.
     io_bind (io_lift (json_result response)) (\<lambda>doc.
     io_bind (io_lift (py_get doc ''workflow_runs'' (JArr []))) (\<lambda>runs.
     if \<not> truthy runs then io_return JNull
     else
       io_bind (io_lift (py_first runs)) (\<lambda>latest_run.
       io_bind (io_lift (py_item latest_run ''artifacts_url'')) (\<lambda>artifacts_url.
       io_bind (requests_get E Artifacts artifacts_url (api_headers E) []) (\<lambda>artifacts_response.
       io_bind (io_lift (raise_for_status artifacts_response)) (\<lambda>_.
       io_bind (io_lift (json_result artifacts_response)) (\<lambda>adoc.
       io_bind (io_lift (py_get adoc ''artifacts'' (JArr []))) (\<lambda>artifacts.
       io_bind (io_lift (py_iter artifacts)) (\<lambda>items.
       find_artifact E environment latest_run items)))))))))))"

definition get_last_successful_image_tag :: "env \<Rightarrow> json \<Rightarrow> json io" where
  "get_last_successful_image_tag E environment =
     io_try (get_last_successful_image_tag_try E environment)
       (\<lambda>e. io_bind (print (''Error getting last successful image tag: '' @ str_exn E e))
                (\<lambda>_. io_return JNull))"

subsection \<open>Workflow dispatcher\<close>

definition dispatch_request :: "env \<Rightarrow> json \<Rightarrow> json \<Rightarrow> json \<Rightarrow> request" where
  "dispatch_request E environment rollback_type image_tag =
     Post (api_repo E @ ''/actions/workflows/'' @ WORKFLOW_FILE @ ''/dispatches'') (api_headers E)
       (JObj [(''ref'', JStr WORKFLOW_BRANCH),
              (''inputs'', JObj [(''environment'', environment),
                                 (''rollback_type'', rollback_type),
                                 (''image_tag'', image_tag),
                                 (''confirm'', JStr ''ROLLBACK'')])])"

definition correlate_request :: "env \<Rightarrow> request" where
  "correlate_request E =
     Get (api_repo E @ ''/actions/workflows/'' @ WORKFLOW_FILE @ ''/runs'') (api_headers E)
       [(''per_page'', JInt 1)]"

definition trigger_github_workflow :: "env \<Rightarrow> json \<Rightarrow> json \<Rightarrow> json \<Rightarrow> string io" where
  "trigger_github_workflow E environment rollback_type image_tag =
     io_bind (requests_post E Dispatch
                (api_repo E @ ''/actions/workflows/'' @ WORKFLOW_FILE @ ''/dispatches'')
                (api_headers E)
                (JObj [(''ref'', JStr WORKFLOW_BRANCH),
                       (''inputs'', JObj [(''environment'', environment),
                                          (''rollback_type'', rollback_type),
                                          (''image_tag'', image_tag),
                                          (''confirm'', JStr ''ROLLBACK'')])])) (\<lambda>response.
     io_bind (io_lift (raise_for_status response)) (\<lambda>_.
     io_bind (sleep 2) (\<lambda>_.
     io_bind (requests_get E Correlate
                (JStr (api_repo E @ ''/actions/workflows/'' @ WORKFLOW_FILE @ ''/runs''))
                (api_headers E) [(''per_page'', JInt 1)]) (\<lambda>runs_response.
     io_bind (io_lift (raise_for_status runs_response)) (\<lambda>_.
     io_bind (io_lift (json_result runs_response)) (\<lambda>doc.
     io_bind (io_lift (py_get doc ''workflow_runs'' (JArr []))) (\<lambda>runs.
     if truthy runs
     then io_bind (io_lift (py_first runs)) (\<lambda>run.
          io_bind (io_lift (py_item run ''id'')) (\<lambda>run_id.
          io_return (py_str E run_id)))
     else io_return ''unknown'')))))))"

subsection \<open>Audit recorder\<close>

definition audit_item ::
  "env \<Rightarrow> string \<Rightarrow> json \<Rightarrow> json \<Rightarrow> json \<Rightarrow> json \<Rightarrow> json \<Rightarrow> (string \<times> json) list" where
  "audit_item E audit_id user_id environment rollback_type image_tag reason =
     [(''audit_id'', JStr audit_id),
      (''timestamp'', JStr (utcnow_isoformat E)),
      (''user_id'', user_id),
      (''environment'', environment),
      (''rollback_type'', rollback_type),
      (''image_tag'', image_tag),
      (''reason'', reason),
      (''status'', JStr ''initiated''),
      (''workflow_run_id'', JNull)]"

definition log_rollback_request ::
  "env \<Rightarrow> json \<Rightarrow> json \<Rightarrow> json \<Rightarrow> json \<Rightarrow> json \<Rightarrow> string io" where
  "log_rollback_request E user_id environment rollback_type image_tag reason =
     io_try
       (let audit_id = py_str E environment @ ''-'' @ str_int (utcnow_timestamp E AuditId) in
        io_bind (dynamodb_call E
                   (PutItem (audit_table_name E)
                      (audit_item E audit_id user_id environment rollback_type image_tag reason)))
          (\<lambda>_. io_return audit_id))
       (\<lambda>e. io_bind (print (''Error logging audit: '' @ str_exn E e))
                (\<lambda>_. io_return (''audit-'' @ str_int (utcnow_timestamp E Fallback))))"

definition audit_update :: "env \<Rightarrow> string \<Rightarrow> string \<Rightarrow> call" where
  "audit_update E audit_id workflow_run_id =
     UpdateItem (audit_table_name E) [(''audit_id'', JStr audit_id)]
       ''SET workflow_run_id = :wid, #status = :status''
       [(''#status'', ''status'')]
       [('':wid'', JStr workflow_run_id), ('':status'', JStr ''triggered'')]"

definition update_audit_log :: "env \<Rightarrow> string \<Rightarrow> string \<Rightarrow> unit io" where
  "update_audit_log E audit_id workflow_run_id =
     io_try (dynamodb_call E (audit_update E audit_id workflow_run_id))
       (\<lambda>e. print (''Error updating audit log: '' @ str_exn E e))"

subsection \<open>Request handler\<close>

text \<open>The body of the event: decoded when it is a string, taken as it is otherwise.\<close>

definition parse_body :: "env \<Rightarrow> (string \<times> json) list \<Rightarrow> exn + json" where
  "parse_body E event =
     (case map_of event ''body'' of
        Some (JStr s) \<Rightarrow> json_loads E s
      | Some v \<Rightarrow> Inr v
      | None \<Rightarrow> Inr (JObj []))"

definition success_response :: "env \<Rightarrow> string \<Rightarrow> string \<Rightarrow> json \<Rightarrow> json \<Rightarrow> json \<Rightarrow> response" where
  "success_response E audit_id workflow_run_id environment rollback_type image_tag =
     \<lparr>statusCode = 200,
      headers = [(''Content-Type'', ''application/json''),
                 (''Access-Control-Allow-Origin'', ''*''),
                 (''Access-Control-Allow-Headers'', ''Content-Type''),
                 (''Access-Control-Allow-Methods'', ''POST, OPTIONS'')],
      body = json_dumps E
        (JObj [(''status'', JStr ''success''),
               (''message'', JStr ''Rollback initiated''),
               (''data'', JObj
                  [(''audit_id'', JStr audit_id),
                   (''workflow_run_id'', JStr workflow_run_id),
                   (''environment'', environment),
                   (''rollback_type'', rollback_type),
                   (''image_tag'', image_tag),
                   (''estimated_duration'', JStr ''3-5 minutes''),
                   (''monitor_url'', JStr (''https://github.com/'' @ GITHUB_REPO_OWNER E @ ''/''
                                            @ GITHUB_REPO_NAME E @ ''/actions''))])])\<rparr>"

text \<open>
  The steps after the image tag is known: audit record, dispatch, audit update, response.
\<close>

definition rollback :: "env \<Rightarrow> json \<Rightarrow> json \<Rightarrow> json \<Rightarrow> json \<Rightarrow> json \<Rightarrow> response io" where
  "rollback E user_id environment rollback_type image_tag reason =
     io_bind (log_rollback_request E user_id environment rollback_type image_tag reason) (\<lambda>audit_id.
     io_bind (trigger_github_workflow E environment rollback_type image_tag) (\<lambda>workflow_run_id.
     io_bind (update_audit_log E audit_id workflow_run_id) (\<lambda>_.
     io_return (success_response E audit_id workflow_run_id environment rollback_type image_tag))))"

text \<open>
  The handler starts with no call made. Its \<open>except\<close> clause answers every exception of
  the block under \<open>try\<close> with a log line and a 500 response, so it always returns one.
\<close>

definition lambda_handler :: "env \<Rightarrow> (string \<times> json) list \<Rightarrow> response \<times> call list" where
  "lambda_handler E event =
     (case
        (io_bind (io_lift (parse_body E event)) (\<lambda>body.
         io_bind (io_lift (py_get body ''environment'' JNull)) (\<lambda>environment.
         io_bind (io_lift (py_get body ''rollback_type'' (JStr ''terraform''))) (\<lambda>rollback_type.
         io_bind (io_lift (py_get body ''user_id'' JNull)) (\<lambda>user_id.
         io_bind (io_lift (py_get body ''reason'' (JStr ''Manual rollback via UI''))) (\<lambda>reason.
         if \<not> truthy environment
         then io_return (error_response E 400 ''environment is required'')
         else if environment \<notin> set [JStr ''dev'', JStr ''prod'']
         then io_return (error_response E 400
                (''environment must be 'dev' or 'prod'' @ [CHR 0x27]))
         else if \<not> truthy user_id
         then io_return (error_response E 400 ''user_id is required'')
         else
           io_bind (io_lift (py_get body ''image_tag'' JNull)) (\<lambda>image_tag.
           if \<not> truthy image_tag
           then
             io_bind (get_last_successful_image_tag E environment) (\<lambda>image_tag.
             if \<not> truthy image_tag
             then io_return (error_response E 404
                    (''No previous successful deployment found for '' @ py_str E environment))
             else rollback E user_id environment rollback_type image_tag reason)
           else rollback E user_id environment rollback_type image_tag reason))))))) []
      of
        (Inr result, t) \<Rightarrow> (result, t)
      | (Inl e, t) \<Rightarrow>
          (error_response E 500 (''Internal server error: '' @ str_exn E e),
           t @ [Print (''Error: '' @ str_exn E e)]))"

section \<open>Example invocations\<close>

text \<open>
  Concrete environments and events on which the statements below are evaluated. The
  library functions are stand-ins; the replies are those of a repository with one
  successful deployment and one rollback run.
\<close>

definition ok_response :: "json \<Rightarrow> http_response" where
  "ok_response doc =
     \<lparr>status_code = 200, reason_phrase = ''OK'', response_url = ''https://api.github.com/'',
      json_result = Inr doc\<rparr>"

definition status_response :: "int \<Rightarrow> string \<Rightarrow> http_response" where
  "status_response code phrase =
     \<lparr>status_code = code, reason_phrase = phrase, response_url = ''https://api.github.com/'',
      json_result = Inl (JSONDecodeError ''Expecting value: line 1 column 1 (char 0)'')\<rparr>"

definition example_run :: json where
  "example_run =
     JObj [(''id'', JInt 7),
           (''head_sha'', JStr ''0123456789abcdef0123456789abcdef01234567''),
           (''artifacts_url'', JStr ''https://api.github.com/artifacts'')]"

definition example_artifacts :: json where
  "example_artifacts =
     JArr [JObj [(''name'', JStr ''build-log''),
                 (''archive_download_url'', JStr ''https://api.github.com/zip/1'')],
           JObj [(''name'', JStr ''last-successful-deployment-prod''),
                 (''archive_download_url'', JStr ''https://api.github.com/zip/2'')]]"

definition example_replies :: "site \<Rightarrow> request \<Rightarrow> exn + http_response" where
  "example_replies s q =
     (case s of
        DeployRuns \<Rightarrow> Inr (ok_response (JObj [(''workflow_runs'', JArr [example_run])]))
      | Artifacts \<Rightarrow> Inr (ok_response (JObj [(''artifacts'', example_artifacts)]))
      | Download \<Rightarrow> Inr (status_response 200 ''OK'')
      | Dispatch \<Rightarrow> Inr (status_response 204 ''No Content'')
      | Correlate \<Rightarrow> Inr (ok_response (JObj [(''workflow_runs'', JArr [JObj [(''id'', JInt 42)]])])))"

definition example_env :: env where
  "example_env =
     \<lparr>GITHUB_TOKEN = Some ''token'',
      GITHUB_REPO_OWNER = ''Softbank-mango'',
      GITHUB_REPO_NAME = ''deplight-infra'',
      audit_table_name = ''rollback-audit-log'',
      json_loads = (\<lambda>s. if s = ''{}'' then Inr (JObj [])
                         else Inl (JSONDecodeError ''Expecting value: line 1 column 1 (char 0)'')),
      json_dumps = (\<lambda>j. ''{}''),
      py_repr = (\<lambda>j. ''[]''),
      interp_text = (\<lambda>e. ''error''),
      requests_reply = example_replies,
      dynamodb_reply = (\<lambda>c. None),
      utcnow_timestamp = (\<lambda>s. 1700000000),
      utcnow_isoformat = ''2023-11-14T22:13:20''\<rparr>"

definition example_body :: "(string \<times> json) list" where
  "example_body =
     [(''environment'', JStr ''prod''),
      (''rollback_type'', JStr ''terraform''),
      (''image_tag'', JStr ''abc123d''),
      (''user_id'', JStr ''u@example.com'')]"

definition example_event :: "(string \<times> json) list" where
  "example_event = [(''body'', JObj example_body)]"

text \<open>The same request without an image tag.\<close>

definition untagged_body :: "(string \<times> json) list" where
  "untagged_body = [(''environment'', JStr ''prod''), (''user_id'', JStr ''u@example.com'')]"

definition untagged_event :: "(string \<times> json) list" where
  "untagged_event = [(''body'', JObj untagged_body)]"

text \<open>The correlation lookup finds no run at all.\<close>

definition no_runs_env :: env where
  "no_runs_env =
     example_env\<lparr>requests_reply := (\<lambda>s q.
        if s = Correlate then Inr (ok_response (JObj [(''workflow_runs'', JArr [])]))
        else example_replies s q)\<rparr>"

text \<open>A body that is not JSON, and a body without an environment.\<close>

definition broken_event :: "(string \<times> json) list" where
  "broken_event = [(''body'', JStr ''{environment: prod'')]"


text \<open>The calls that change the audit record after its creation.\<close>

fun is_update :: "call \<Rightarrow> bool" where
  "is_update (UpdateItem tb key expr names vals) = True"
| "is_update c = False"

text \<open>The dispatch is refused, or answered outside both 2xx and the error range.\<close>

definition rejecting_env :: env where
  "rejecting_env =
     example_env\<lparr>requests_reply := (\<lambda>s q.
        if s = Dispatch then Inr (status_response 422 ''Unprocessable Entity'')
        else example_replies s q)\<rparr>"

definition not_modified_env :: env where
  "not_modified_env =
     example_env\<lparr>requests_reply := (\<lambda>s q.
        if s = Dispatch then Inr (status_response 304 ''Not Modified'')
        else example_replies s q)\<rparr>"

text \<open>The dispatch is accepted and the correlation lookup cannot connect.\<close>

definition correlation_down_env :: env where
  "correlation_down_env =
     example_env\<lparr>requests_reply := (\<lambda>s q.
        if s = Correlate then Inl (RequestException ''Connection aborted.'')
        else example_replies s q)\<rparr>"




text \<open>The audit store is down: every write fails. And a store that only refuses updates.\<close>

definition outage :: "call \<Rightarrow> exn option" where
  "outage c = Some (ClientError ''ServiceUnavailable'')"

definition update_outage :: "call \<Rightarrow> exn option" where
  "update_outage c = (if is_update c then Some (ClientError ''ServiceUnavailable'') else None)"





section \<open>How the components run\<close>

lemmas io_defs = io_return_def io_raise_def io_lift_def io_bind_def io_try_def io_call_def
  print_def sleep_def

lemma log_rollback_request_run:
  "log_rollback_request E user_id environment rollback_type image_tag reason t =
     (case dynamodb_reply E (PutItem (audit_table_name E)
              (audit_item E (py_str E environment @ ''-'' @ str_int (utcnow_timestamp E AuditId))
                 user_id environment rollback_type image_tag reason)) of
        None \<Rightarrow>
          (Inr (py_str E environment @ ''-'' @ str_int (utcnow_timestamp E AuditId)),
           t @ [PutItem (audit_table_name E)
              (audit_item E (py_str E environment @ ''-'' @ str_int (utcnow_timestamp E AuditId))
                 user_id environment rollback_type image_tag reason)])
      | Some e \<Rightarrow>
          (Inr (''audit-'' @ str_int (utcnow_timestamp E Fallback)),
           t @ [PutItem (audit_table_name E)
              (audit_item E (py_str E environment @ ''-'' @ str_int (utcnow_timestamp E AuditId))
                 user_id environment rollback_type image_tag reason),
                Print (''Error logging audit: '' @ str_exn E e)]))"
  by (simp add: log_rollback_request_def dynamodb_call_def io_defs Let_def split: option.splits)

lemma update_audit_log_run:
  "update_audit_log E audit_id workflow_run_id t =
     (case dynamodb_reply E (audit_update E audit_id workflow_run_id) of
        None \<Rightarrow> (Inr (), t @ [audit_update E audit_id workflow_run_id])
      | Some e \<Rightarrow> (Inr (), t @ [audit_update E audit_id workflow_run_id,
                                Print (''Error updating audit log: '' @ str_exn E e)]))"
  by (simp add: update_audit_log_def dynamodb_call_def io_defs split: option.splits)

lemma get_last_successful_image_tag_returns:
  "\<exists>v t'. get_last_successful_image_tag E environment t = (Inr v, t')"
  by (simp add: get_last_successful_image_tag_def io_defs split: prod.splits sum.splits)

lemma trigger_dispatch_raises:
  assumes "requests_reply E Dispatch (dispatch_request E environment rollback_type image_tag) = Inl e"
  shows "trigger_github_workflow E environment rollback_type image_tag t =
           (Inl e, t @ [Request Dispatch (dispatch_request E environment rollback_type image_tag)])"
  using assms
  by (simp add: trigger_github_workflow_def dispatch_request_def requests_post_def io_defs)

lemma trigger_dispatch_rejected:
  assumes "requests_reply E Dispatch (dispatch_request E environment rollback_type image_tag) = Inr r"
    and "raise_for_status r = Inl e"
  shows "trigger_github_workflow E environment rollback_type image_tag t =
           (Inl e, t @ [Request Dispatch (dispatch_request E environment rollback_type image_tag)])"
  using assms
  by (simp add: trigger_github_workflow_def dispatch_request_def requests_post_def io_defs)

lemma trigger_correlate_raises:
  assumes "requests_reply E Dispatch (dispatch_request E environment rollback_type image_tag) = Inr r"
    and "raise_for_status r = Inr ()"
    and "requests_reply E Correlate (correlate_request E) = Inl e"
  shows "trigger_github_workflow E environment rollback_type image_tag t =
           (Inl e, t @ [Request Dispatch (dispatch_request E environment rollback_type image_tag),
                        Sleep 2, Request Correlate (correlate_request E)])"
  using assms
  by (simp add: trigger_github_workflow_def dispatch_request_def correlate_request_def
      requests_post_def requests_get_def io_defs)

lemma trigger_correlate_rejected:
  assumes "requests_reply E Dispatch (dispatch_request E environment rollback_type image_tag) = Inr r"
    and "raise_for_status r = Inr ()"
    and "requests_reply E Correlate (correlate_request E) = Inr r'"
    and "raise_for_status r' = Inl e"
  shows "trigger_github_workflow E environment rollback_type image_tag t =
           (Inl e, t @ [Request Dispatch (dispatch_request E environment rollback_type image_tag),
                        Sleep 2, Request Correlate (correlate_request E)])"
  using assms
  by (simp add: trigger_github_workflow_def dispatch_request_def correlate_request_def
      requests_post_def requests_get_def io_defs)

lemma trigger_correlated:
  assumes "requests_reply E Dispatch (dispatch_request E environment rollback_type image_tag) = Inr r"
    and "raise_for_status r = Inr ()"
    and "requests_reply E Correlate (correlate_request E) = Inr r'"
    and "raise_for_status r' = Inr ()"
    and "json_result r' = Inr (JObj doc)"
  shows "trigger_github_workflow E environment rollback_type image_tag t =
           ((if truthy (dict_get doc ''workflow_runs'' (JArr []))
             then (case py_first (dict_get doc ''workflow_runs'' (JArr [])) of
                     Inl e \<Rightarrow> Inl e
                   | Inr run \<Rightarrow> (case py_item run ''id'' of
                        Inl e \<Rightarrow> Inl e
                      | Inr run_id \<Rightarrow> Inr (py_str E run_id)))
             else Inr ''unknown''),
            t @ [Request Dispatch (dispatch_request E environment rollback_type image_tag),
                 Sleep 2, Request Correlate (correlate_request E)])"
  using assms
  by (simp add: trigger_github_workflow_def dispatch_request_def correlate_request_def
      requests_post_def requests_get_def io_defs split: sum.splits)

lemma rollback_run:
  "rollback E user_id environment rollback_type image_tag reason t =
     (case log_rollback_request E user_id environment rollback_type image_tag reason t of
        (Inl e, t1) \<Rightarrow> (Inl e, t1)
      | (Inr audit_id, t1) \<Rightarrow>
          (case trigger_github_workflow E environment rollback_type image_tag t1 of
             (Inl e, t2) \<Rightarrow> (Inl e, t2)
           | (Inr workflow_run_id, t2) \<Rightarrow>
               (Inr (success_response E audit_id workflow_run_id environment rollback_type image_tag),
                snd (update_audit_log E audit_id workflow_run_id t2))))"
  by (simp add: rollback_def io_bind_def io_return_def update_audit_log_run
      split: prod.splits sum.splits option.splits)

lemma lambda_handler_tagged:
  assumes "parse_body E event = Inr (JObj kvs)"
    and "dict_get kvs ''environment'' JNull \<in> {JStr ''dev'', JStr ''prod''}"
    and "truthy (dict_get kvs ''user_id'' JNull)"
    and "truthy (dict_get kvs ''image_tag'' JNull)"
  shows "lambda_handler E event =
     (case rollback E (dict_get kvs ''user_id'' JNull) (dict_get kvs ''environment'' JNull)
             (dict_get kvs ''rollback_type'' (JStr ''terraform''))
             (dict_get kvs ''image_tag'' JNull)
             (dict_get kvs ''reason'' (JStr ''Manual rollback via UI'')) [] of
        (Inr result, t) \<Rightarrow> (result, t)
      | (Inl e, t) \<Rightarrow>
          (error_response E 500 (''Internal server error: '' @ str_exn E e),
           t @ [Print (''Error: '' @ str_exn E e)]))"
  using assms
  by (auto simp add: lambda_handler_def io_bind_def io_return_def io_lift_def)

lemma lambda_handler_resolved:
  assumes "parse_body E event = Inr (JObj kvs)"
    and "dict_get kvs ''environment'' JNull \<in> {JStr ''dev'', JStr ''prod''}"
    and "truthy (dict_get kvs ''user_id'' JNull)"
    and "\<not> truthy (dict_get kvs ''image_tag'' JNull)"
    and "get_last_successful_image_tag E (dict_get kvs ''environment'' JNull) [] = (Inr image_tag, t0)"
    and "truthy image_tag"
  shows "lambda_handler E event =
     (case rollback E (dict_get kvs ''user_id'' JNull) (dict_get kvs ''environment'' JNull)
             (dict_get kvs ''rollback_type'' (JStr ''terraform''))
             image_tag
             (dict_get kvs ''reason'' (JStr ''Manual rollback via UI'')) t0 of
        (Inr result, t) \<Rightarrow> (result, t)
      | (Inl e, t) \<Rightarrow>
          (error_response E 500 (''Internal server error: '' @ str_exn E e),
           t @ [Print (''Error: '' @ str_exn E e)]))"
  using assms
  by (auto simp add: lambda_handler_def io_bind_def io_return_def io_lift_def)

lemma lambda_handler_unresolved:
  assumes "parse_body E event = Inr (JObj kvs)"
    and "dict_get kvs ''environment'' JNull \<in> {JStr ''dev'', JStr ''prod''}"
    and "truthy (dict_get kvs ''user_id'' JNull)"
    and "\<not> truthy (dict_get kvs ''image_tag'' JNull)"
    and "get_last_successful_image_tag E (dict_get kvs ''environment'' JNull) [] = (Inr image_tag, t0)"
    and "\<not> truthy image_tag"
  shows "lambda_handler E event =
     (error_response E 404 (''No previous successful deployment found for ''
        @ py_str E (dict_get kvs ''environment'' JNull)), t0)"
  using assms
  by (auto simp add: lambda_handler_def io_bind_def io_return_def io_lift_def)

section \<open>The claims\<close>

text \<open>
  C1. A request that passes validation and has an image tag (its own, or the resolved one)
  reaches the dispatcher. If the dispatch POST comes back without an error and the
  correlation lookup answers with an empty list of runs (or no list), the dispatcher
  returns the string \<open>unknown\<close> as the run id, and the handler answers 200 with that
  run id in its body.
\<close>

theorem C1_unknown_run_id:
  assumes "parse_body E event = Inr (JObj kvs)"
    and "environment = dict_get kvs ''environment'' JNull"
    and "rollback_type = dict_get kvs ''rollback_type'' (JStr ''terraform'')"
    and "environment \<in> {JStr ''dev'', JStr ''prod''}"
    and "truthy (dict_get kvs ''user_id'' JNull)"
    and "(truthy (dict_get kvs ''image_tag'' JNull) \<and> image_tag = dict_get kvs ''image_tag'' JNull)
         \<or> (\<not> truthy (dict_get kvs ''image_tag'' JNull)
             \<and> fst (get_last_successful_image_tag E environment []) = Inr image_tag
             \<and> truthy image_tag)"
    and "requests_reply E Dispatch (dispatch_request E environment rollback_type image_tag) = Inr r"
    and "raise_for_status r = Inr ()"
    and "requests_reply E Correlate (correlate_request E) = Inr r'"
    and "raise_for_status r' = Inr ()"
    and "json_result r' = Inr (JObj doc)"
    and "dict_get doc ''workflow_runs'' (JArr []) = JArr []"
  shows "fst (trigger_github_workflow E environment rollback_type image_tag t) = Inr ''unknown''
         \<and> statusCode (fst (lambda_handler E event)) = 200
         \<and> (\<exists>audit_id. fst (lambda_handler E event) =
               success_response E audit_id ''unknown'' environment rollback_type image_tag)"
proof -
  have trig: "\<And>t. trigger_github_workflow E environment rollback_type image_tag t =
      (Inr ''unknown'',
       t @ [Request Dispatch (dispatch_request E environment rollback_type image_tag),
            Sleep 2, Request Correlate (correlate_request E)])"
    using assms(7-12) by (simp add: trigger_correlated)
  have roll: "\<And>t. \<exists>audit_id t'.
      rollback E (dict_get kvs ''user_id'' JNull) environment rollback_type image_tag
        (dict_get kvs ''reason'' (JStr ''Manual rollback via UI'')) t =
      (Inr (success_response E audit_id ''unknown'' environment rollback_type image_tag), t')"
    by (cases "dynamodb_reply E (PutItem (audit_table_name E)
              (audit_item E (py_str E environment @ ''-'' @ str_int (utcnow_timestamp E AuditId))
                 (dict_get kvs ''user_id'' JNull) environment rollback_type image_tag
                 (dict_get kvs ''reason'' (JStr ''Manual rollback via UI''))))")
      (auto simp add: rollback_run log_rollback_request_run trig)
  have "\<exists>audit_id. fst (lambda_handler E event) =
          success_response E audit_id ''unknown'' environment rollback_type image_tag"
    using assms(6)
  proof
    assume a: "truthy (dict_get kvs ''image_tag'' JNull) \<and> image_tag = dict_get kvs ''image_tag'' JNull"
    obtain audit_id t' where
      "rollback E (dict_get kvs ''user_id'' JNull) environment rollback_type image_tag
         (dict_get kvs ''reason'' (JStr ''Manual rollback via UI'')) [] =
       (Inr (success_response E audit_id ''unknown'' environment rollback_type image_tag), t')"
      using roll by blast
    then show ?thesis
      using a assms(1-5) lambda_handler_tagged [of E event kvs] by auto
  next
    assume a: "\<not> truthy (dict_get kvs ''image_tag'' JNull)
             \<and> fst (get_last_successful_image_tag E environment []) = Inr image_tag
             \<and> truthy image_tag"
    then obtain t0 where g: "get_last_successful_image_tag E environment [] = (Inr image_tag, t0)"
      by (cases "get_last_successful_image_tag E environment []") auto
    obtain audit_id t' where
      "rollback E (dict_get kvs ''user_id'' JNull) environment rollback_type image_tag
         (dict_get kvs ''reason'' (JStr ''Manual rollback via UI'')) t0 =
       (Inr (success_response E audit_id ''unknown'' environment rollback_type image_tag), t')"
      using roll by blast
    then show ?thesis
      using a g assms(1-5) lambda_handler_resolved [of E event kvs image_tag t0] by auto
  qed
  then show ?thesis
    by (auto simp add: trig success_response_def)
qed


lemmas example_defs = example_env_def example_replies_def example_event_def example_body_def
  untagged_event_def untagged_body_def ok_response_def status_response_def example_run_def
  example_artifacts_def

theorem C1_unknown_run_id_witness:
  "fst (trigger_github_workflow no_runs_env (JStr ''prod'') (JStr ''terraform'') (JStr ''abc123d'') [])
     = Inr ''unknown''
   \<and> statusCode (fst (lambda_handler no_runs_env example_event)) = 200"
proof -
  have 1: "parse_body no_runs_env example_event = Inr (JObj example_body)"
    by (simp add: parse_body_def example_event_def)
  have 2: "JStr ''prod'' = dict_get example_body ''environment'' JNull"
    by (simp add: dict_get_def example_body_def)
  have 3: "JStr ''terraform'' = dict_get example_body ''rollback_type'' (JStr ''terraform'')"
    by (simp add: dict_get_def example_body_def)
  have 4: "JStr ''prod'' \<in> {JStr ''dev'', JStr ''prod''}"
    by simp
  have 5: "truthy (dict_get example_body ''user_id'' JNull)"
    by (simp add: dict_get_def example_body_def)
  have 6: "(truthy (dict_get example_body ''image_tag'' JNull)
            \<and> JStr ''abc123d'' = dict_get example_body ''image_tag'' JNull)
         \<or> (\<not> truthy (dict_get example_body ''image_tag'' JNull)
             \<and> fst (get_last_successful_image_tag no_runs_env (JStr ''prod'') []) = Inr (JStr ''abc123d'')
             \<and> truthy (JStr ''abc123d''))"
    by (simp add: dict_get_def example_body_def)
  have 7: "requests_reply no_runs_env Dispatch
             (dispatch_request no_runs_env (JStr ''prod'') (JStr ''terraform'') (JStr ''abc123d''))
           = Inr (status_response 204 ''No Content'')"
    by (simp add: no_runs_env_def example_env_def example_replies_def)
  have 8: "raise_for_status (status_response 204 ''No Content'') = Inr ()"
    by (simp add: raise_for_status_def status_response_def)
  have 9: "requests_reply no_runs_env Correlate (correlate_request no_runs_env)
           = Inr (ok_response (JObj [(''workflow_runs'', JArr [])]))"
    by (simp add: no_runs_env_def example_env_def)
  have 10: "raise_for_status (ok_response (JObj [(''workflow_runs'', JArr [])])) = Inr ()"
    by (simp add: raise_for_status_def ok_response_def)
  have 11: "json_result (ok_response (JObj [(''workflow_runs'', JArr [])]))
            = Inr (JObj [(''workflow_runs'', JArr [])])"
    by (simp add: ok_response_def)
  have 12: "dict_get [(''workflow_runs'', JArr [])] ''workflow_runs'' (JArr []) = JArr []"
    by (simp add: dict_get_def)
  show ?thesis
    using C1_unknown_run_id [OF 1 2 3 4 5 6 7 8 9 10 11 12, of "[]"] by simp
qed

text \<open>
  C10. When the body of the event is a string that the JSON decoder rejects, the error
  reaches the outer \<open>except\<close> clause: the handler answers 500 (not 400) with the
  decoder's message, and the only thing it did was to print the error.
\<close>

theorem C10_invalid_json_is_500:
  assumes "map_of event ''body'' = Some (JStr s)"
    and "json_loads E s = Inl e"
  shows "fst (lambda_handler E event) =
           error_response E 500 (''Internal server error: '' @ str_exn E e)
         \<and> statusCode (fst (lambda_handler E event)) = 500
         \<and> snd (lambda_handler E event) = [Print (''Error: '' @ str_exn E e)]"
  using assms
  by (simp add: lambda_handler_def parse_body_def io_bind_def io_lift_def error_response_def)

theorem C10_invalid_json_is_500_witness:
  "statusCode (fst (lambda_handler example_env broken_event)) = 500
   \<and> snd (lambda_handler example_env broken_event)
       = [Print ''Error: Expecting value: line 1 column 1 (char 0)'']"
proof -
  have 1: "map_of broken_event ''body'' = Some (JStr ''{environment: prod'')"
    by (simp add: broken_event_def)
  have 2: "json_loads example_env ''{environment: prod''
           = Inl (JSONDecodeError ''Expecting value: line 1 column 1 (char 0)'')"
    by (simp add: example_env_def)
  show ?thesis
    using C10_invalid_json_is_500 [OF 1 2] by (simp add: error_response_def)
qed




text \<open>
  C8. When the write of the audit record succeeds, the audit id is the environment, a
  hyphen and the epoch seconds read for it, in decimal. So two creations for the same
  environment whose clocks read the same second return the same id.
\<close>

theorem C8_audit_id_format:
  assumes "dynamodb_reply E1 (PutItem (audit_table_name E1)
             (audit_item E1 (environment @ ''-'' @ str_int (utcnow_timestamp E1 AuditId))
                user_id (JStr environment) rollback_type image_tag reason)) = None"
    and "dynamodb_reply E2 (PutItem (audit_table_name E2)
             (audit_item E2 (environment @ ''-'' @ str_int (utcnow_timestamp E2 AuditId))
                user_id (JStr environment) rollback_type image_tag reason)) = None"
  shows "fst (log_rollback_request E1 user_id (JStr environment) rollback_type image_tag reason t1)
           = Inr (environment @ ''-'' @ str_int (utcnow_timestamp E1 AuditId))
         \<and> (utcnow_timestamp E1 AuditId = utcnow_timestamp E2 AuditId \<longrightarrow>
              fst (log_rollback_request E1 user_id (JStr environment) rollback_type image_tag reason t1)
              = fst (log_rollback_request E2 user_id (JStr environment) rollback_type image_tag reason t2))"
proof -
  have 1: "fst (log_rollback_request E1 user_id (JStr environment) rollback_type image_tag reason t1)
             = Inr (environment @ ''-'' @ str_int (utcnow_timestamp E1 AuditId))"
    using assms(1) by (simp add: log_rollback_request_run)
  have 2: "fst (log_rollback_request E2 user_id (JStr environment) rollback_type image_tag reason t2)
             = Inr (environment @ ''-'' @ str_int (utcnow_timestamp E2 AuditId))"
    using assms(2) by (simp add: log_rollback_request_run)
  show ?thesis
    unfolding 1 2 by simp
qed

theorem C8_audit_id_format_witness:
  "fst (log_rollback_request example_env (JStr ''u@example.com'') (JStr ''prod'')
          (JStr ''terraform'') (JStr ''abc123d'') (JStr ''Manual rollback via UI'') [])
     = Inr ''prod-1700000000''"
proof -
  have 1: "dynamodb_reply example_env (PutItem (audit_table_name example_env)
             (audit_item example_env (''prod'' @ ''-'' @ str_int (utcnow_timestamp example_env AuditId))
                (JStr ''u@example.com'') (JStr ''prod'') (JStr ''terraform'') (JStr ''abc123d'')
                (JStr ''Manual rollback via UI''))) = None"
    by (simp add: example_env_def)
  have 2: "str_int (utcnow_timestamp example_env AuditId) = ''1700000000''"
    by (simp add: example_env_def str_int_def str_nat.simps digit_def)
  show ?thesis
    using C8_audit_id_format [OF 1 1, of "[]" "[]"] 2 by simp
qed

text \<open>
  C2. The request \<open>environment = prod\<close>, \<open>rollback_type = terraform\<close>,
  \<open>image_tag = abc123d\<close>, \<open>user_id = u@example.com\<close>, with every external call
  succeeding. The calls made are, in this order and no other: one write of the audit record
  (status \<open>initiated\<close>, run id null), the dispatch POST (its inputs carry
  \<open>confirm = ROLLBACK\<close>), the pause, the correlation lookup, and one update of the audit
  record (status \<open>triggered\<close>). The answer is 200 and its body is the serialised document
  whose \<open>data\<close> has the seven fields, \<open>image_tag\<close> being \<open>abc123d\<close>.
\<close>

theorem C2_successful_rollback:
  assumes "parse_body E event = Inr (JObj kvs)"
    and "map_of kvs ''environment'' = Some (JStr ''prod'')"
    and "map_of kvs ''rollback_type'' = Some (JStr ''terraform'')"
    and "map_of kvs ''image_tag'' = Some (JStr ''abc123d'')"
    and "map_of kvs ''user_id'' = Some (JStr ''u@example.com'')"
    and "audit_id = ''prod-'' @ str_int (utcnow_timestamp E AuditId)"
    and "item = audit_item E audit_id (JStr ''u@example.com'') (JStr ''prod'') (JStr ''terraform'')
                  (JStr ''abc123d'') (dict_get kvs ''reason'' (JStr ''Manual rollback via UI''))"
    and "dynamodb_reply E (PutItem (audit_table_name E) item) = None"
    and "requests_reply E Dispatch
           (dispatch_request E (JStr ''prod'') (JStr ''terraform'') (JStr ''abc123d'')) = Inr r"
    and "raise_for_status r = Inr ()"
    and "requests_reply E Correlate (correlate_request E) = Inr r'"
    and "raise_for_status r' = Inr ()"
    and "json_result r' = Inr (JObj doc)"
    and "(dict_get doc ''workflow_runs'' (JArr []) = JArr [] \<and> workflow_run_id = ''unknown'')
         \<or> (\<exists>run more run_id. dict_get doc ''workflow_runs'' (JArr []) = JArr (JObj run # more)
                \<and> map_of run ''id'' = Some run_id \<and> workflow_run_id = py_str E run_id)"
    and "dynamodb_reply E (audit_update E audit_id workflow_run_id) = None"
  shows "snd (lambda_handler E event) =
           [PutItem (audit_table_name E) item,
            Request Dispatch (dispatch_request E (JStr ''prod'') (JStr ''terraform'') (JStr ''abc123d'')),
            Sleep 2,
            Request Correlate (correlate_request E),
            audit_update E audit_id workflow_run_id]
         \<and> map_of item ''status'' = Some (JStr ''initiated'')
         \<and> map_of item ''workflow_run_id'' = Some JNull
         \<and> (\<exists>u hs inputs.
               dispatch_request E (JStr ''prod'') (JStr ''terraform'') (JStr ''abc123d'')
                 = Post u hs (JObj [(''ref'', JStr WORKFLOW_BRANCH), (''inputs'', JObj inputs)])
               \<and> map_of inputs ''confirm'' = Some (JStr ''ROLLBACK''))
         \<and> (\<exists>tb key expr names vals.
               audit_update E audit_id workflow_run_id = UpdateItem tb key expr names vals
               \<and> map_of vals '':status'' = Some (JStr ''triggered''))
         \<and> statusCode (fst (lambda_handler E event)) = 200
         \<and> (\<exists>d. body (fst (lambda_handler E event)) =
                   json_dumps E (JObj [(''status'', JStr ''success''),
                                       (''message'', JStr ''Rollback initiated''),
                                       (''data'', JObj d)])
                \<and> map_of d ''image_tag'' = Some (JStr ''abc123d'')
                \<and> map fst d = [''audit_id'', ''workflow_run_id'', ''environment'',
                                ''rollback_type'', ''image_tag'', ''estimated_duration'',
                                ''monitor_url''])"
proof -
  have env: "dict_get kvs ''environment'' JNull = JStr ''prod''"
    and rt: "dict_get kvs ''rollback_type'' (JStr ''terraform'') = JStr ''terraform''"
    and tag: "dict_get kvs ''image_tag'' JNull = JStr ''abc123d''"
    and user: "dict_get kvs ''user_id'' JNull = JStr ''u@example.com''"
    using assms(2-5) by (simp_all add: dict_get_def)
  have trig: "\<And>t. trigger_github_workflow E (JStr ''prod'') (JStr ''terraform'') (JStr ''abc123d'') t =
      (Inr workflow_run_id,
       t @ [Request Dispatch (dispatch_request E (JStr ''prod'') (JStr ''terraform'') (JStr ''abc123d'')),
            Sleep 2, Request Correlate (correlate_request E)])"
    using assms(14) trigger_correlated [OF assms(9-13)] by auto
  have log: "log_rollback_request E (JStr ''u@example.com'') (JStr ''prod'') (JStr ''terraform'')
               (JStr ''abc123d'') (dict_get kvs ''reason'' (JStr ''Manual rollback via UI'')) []
             = (Inr audit_id, [PutItem (audit_table_name E) item])"
    using assms(6-8) by (simp add: log_rollback_request_run)
  have upd: "\<And>t. update_audit_log E audit_id workflow_run_id t
               = (Inr (), t @ [audit_update E audit_id workflow_run_id])"
    using assms(15) by (simp add: update_audit_log_run)
  have roll: "rollback E (JStr ''u@example.com'') (JStr ''prod'') (JStr ''terraform'')
                (JStr ''abc123d'') (dict_get kvs ''reason'' (JStr ''Manual rollback via UI'')) []
              = (Inr (success_response E audit_id workflow_run_id (JStr ''prod'') (JStr ''terraform'')
                        (JStr ''abc123d'')),
                 [PutItem (audit_table_name E) item,
                  Request Dispatch (dispatch_request E (JStr ''prod'') (JStr ''terraform'')
                                      (JStr ''abc123d'')),
                  Sleep 2, Request Correlate (correlate_request E),
                  audit_update E audit_id workflow_run_id])"
    by (simp add: rollback_run log trig upd)
  have h: "lambda_handler E event =
             (success_response E audit_id workflow_run_id (JStr ''prod'') (JStr ''terraform'')
                (JStr ''abc123d''),
              [PutItem (audit_table_name E) item,
               Request Dispatch (dispatch_request E (JStr ''prod'') (JStr ''terraform'')
                                   (JStr ''abc123d'')),
               Sleep 2, Request Correlate (correlate_request E),
               audit_update E audit_id workflow_run_id])"
    using lambda_handler_tagged [of E event kvs] assms(1) roll
    by (simp add: env rt tag user)
  have i: "map_of item ''status'' = Some (JStr ''initiated'')
           \<and> map_of item ''workflow_run_id'' = Some JNull"
    by (simp add: assms(7) audit_item_def)
  have b: "\<exists>d. body (fst (lambda_handler E event)) =
                   json_dumps E (JObj [(''status'', JStr ''success''),
                                       (''message'', JStr ''Rollback initiated''),
                                       (''data'', JObj d)])
                \<and> map_of d ''image_tag'' = Some (JStr ''abc123d'')
                \<and> map fst d = [''audit_id'', ''workflow_run_id'', ''environment'',
                                ''rollback_type'', ''image_tag'', ''estimated_duration'',
                                ''monitor_url'']"
    by (rule exI [where x = "[(''audit_id'', JStr audit_id),
                              (''workflow_run_id'', JStr workflow_run_id),
                              (''environment'', JStr ''prod''),
                              (''rollback_type'', JStr ''terraform''),
                              (''image_tag'', JStr ''abc123d''),
                              (''estimated_duration'', JStr ''3-5 minutes''),
                              (''monitor_url'', JStr (''https://github.com/'' @ GITHUB_REPO_OWNER E
                                 @ ''/'' @ GITHUB_REPO_NAME E @ ''/actions''))]"])
       (simp add: h success_response_def)
  have s: "statusCode (fst (lambda_handler E event)) = 200"
    by (simp add: h success_response_def)
  have t: "snd (lambda_handler E event) =
           [PutItem (audit_table_name E) item,
            Request Dispatch (dispatch_request E (JStr ''prod'') (JStr ''terraform'') (JStr ''abc123d'')),
            Sleep 2,
            Request Correlate (correlate_request E),
            audit_update E audit_id workflow_run_id]"
    by (simp add: h)
  have p: "\<exists>u hs inputs.
               dispatch_request E (JStr ''prod'') (JStr ''terraform'') (JStr ''abc123d'')
                 = Post u hs (JObj [(''ref'', JStr WORKFLOW_BRANCH), (''inputs'', JObj inputs)])
               \<and> map_of inputs ''confirm'' = Some (JStr ''ROLLBACK'')"
    by (simp add: dispatch_request_def)
  have u: "\<exists>tb key expr names vals.
               audit_update E audit_id workflow_run_id = UpdateItem tb key expr names vals
               \<and> map_of vals '':status'' = Some (JStr ''triggered'')"
    by (simp add: audit_update_def)
  show ?thesis
    using t i p u s b by blast
qed


theorem C2_successful_rollback_witness:
  "statusCode (fst (lambda_handler example_env example_event)) = 200
   \<and> snd (lambda_handler example_env example_event) =
       [PutItem ''rollback-audit-log''
          (audit_item example_env (''prod-'' @ str_int 1700000000) (JStr ''u@example.com'')
             (JStr ''prod'') (JStr ''terraform'') (JStr ''abc123d'')
             (JStr ''Manual rollback via UI'')),
        Request Dispatch
          (dispatch_request example_env (JStr ''prod'') (JStr ''terraform'') (JStr ''abc123d'')),
        Sleep 2,
        Request Correlate (correlate_request example_env),
        audit_update example_env (''prod-'' @ str_int 1700000000) (str_int 42)]"
proof -
  have 1: "parse_body example_env example_event = Inr (JObj example_body)"
    by (simp add: parse_body_def example_event_def)
  have 2: "map_of example_body ''environment'' = Some (JStr ''prod'')"
    by (simp add: example_body_def)
  have 3: "map_of example_body ''rollback_type'' = Some (JStr ''terraform'')"
    by (simp add: example_body_def)
  have 4: "map_of example_body ''image_tag'' = Some (JStr ''abc123d'')"
    by (simp add: example_body_def)
  have 5: "map_of example_body ''user_id'' = Some (JStr ''u@example.com'')"
    by (simp add: example_body_def)
  have 6: "''prod-'' @ str_int 1700000000 = ''prod-'' @ str_int (utcnow_timestamp example_env AuditId)"
    by (simp add: example_env_def)
  have 7: "audit_item example_env (''prod-'' @ str_int 1700000000) (JStr ''u@example.com'')
             (JStr ''prod'') (JStr ''terraform'') (JStr ''abc123d'')
             (JStr ''Manual rollback via UI'')
           = audit_item example_env (''prod-'' @ str_int 1700000000) (JStr ''u@example.com'')
               (JStr ''prod'') (JStr ''terraform'') (JStr ''abc123d'')
               (dict_get example_body ''reason'' (JStr ''Manual rollback via UI''))"
    by (simp add: dict_get_def example_body_def)
  have 8: "dynamodb_reply example_env (PutItem (audit_table_name example_env)
             (audit_item example_env (''prod-'' @ str_int 1700000000) (JStr ''u@example.com'')
                (JStr ''prod'') (JStr ''terraform'') (JStr ''abc123d'')
                (JStr ''Manual rollback via UI''))) = None"
    by (simp add: example_env_def)
  have 9: "requests_reply example_env Dispatch
             (dispatch_request example_env (JStr ''prod'') (JStr ''terraform'') (JStr ''abc123d''))
           = Inr (status_response 204 ''No Content'')"
    by (simp add: example_env_def example_replies_def)
  have 10: "raise_for_status (status_response 204 ''No Content'') = Inr ()"
    by (simp add: raise_for_status_def status_response_def)
  have 11: "requests_reply example_env Correlate (correlate_request example_env)
            = Inr (ok_response (JObj [(''workflow_runs'', JArr [JObj [(''id'', JInt 42)]])]))"
    by (simp add: example_env_def example_replies_def)
  have 12: "raise_for_status (ok_response (JObj [(''workflow_runs'', JArr [JObj [(''id'', JInt 42)]])]))
            = Inr ()"
    by (simp add: raise_for_status_def ok_response_def)
  have 13: "json_result (ok_response (JObj [(''workflow_runs'', JArr [JObj [(''id'', JInt 42)]])]))
            = Inr (JObj [(''workflow_runs'', JArr [JObj [(''id'', JInt 42)]])])"
    by (simp add: ok_response_def)
  have 14: "(dict_get [(''workflow_runs'', JArr [JObj [(''id'', JInt 42)]])] ''workflow_runs'' (JArr [])
               = JArr [] \<and> str_int 42 = ''unknown'')
         \<or> (\<exists>run more run_id.
               dict_get [(''workflow_runs'', JArr [JObj [(''id'', JInt 42)]])] ''workflow_runs'' (JArr [])
                 = JArr (JObj run # more)
               \<and> map_of run ''id'' = Some run_id \<and> str_int 42 = py_str example_env run_id)"
    by (simp add: dict_get_def)
  have 15: "dynamodb_reply example_env
              (audit_update example_env (''prod-'' @ str_int 1700000000) (str_int 42)) = None"
    by (simp add: example_env_def)
  show ?thesis
    using C2_successful_rollback [OF 1 2 3 4 5 6 7 8 9 10 11 12 13 14 15]
    by (simp add: example_env_def)
qed

lemma find_artifact_no_update:
  "filter is_update (snd (find_artifact E environment latest_run items t)) = filter is_update t"
proof (induction items arbitrary: t)
  case Nil
  show ?case by (simp add: io_return_def)
next
  case (Cons artifact rest)
  show ?case
  proof (cases "py_item artifact ''name''")
    case (Inl e)
    then show ?thesis by (simp add: io_bind_def io_lift_def)
  next
    case (Inr name)
    show ?thesis
    proof (cases "name = JStr (''last-successful-deployment-'' @ py_str E environment)")
      case False
      then show ?thesis
        using Inr Cons.IH [of t] by (simp add: io_bind_def io_lift_def)
    next
      case True
      then show ?thesis
        using Inr
        by (auto simp add: io_bind_def io_lift_def io_call_def io_raise_def requests_get_def
            split: sum.splits json.splits prod.splits)
    qed
  qed
qed

lemma resolver_try_no_update:
  "filter is_update (snd (get_last_successful_image_tag_try E environment t)) = filter is_update t"
  unfolding get_last_successful_image_tag_try_def
  by (auto simp add: io_bind_def io_lift_def io_call_def io_raise_def io_return_def
      requests_get_def find_artifact_no_update
      split: sum.splits json.splits prod.splits)

lemma resolver_no_update:
  "filter is_update (snd (get_last_successful_image_tag E environment t)) = filter is_update t"
  using resolver_try_no_update [of E environment t]
  by (auto simp add: get_last_successful_image_tag_def io_try_def io_bind_def io_return_def
      print_def io_call_def split: sum.splits prod.splits)


lemma lambda_handler_reaches_rollback:
  assumes "parse_body E event = Inr (JObj kvs)"
    and "environment = dict_get kvs ''environment'' JNull"
    and "environment \<in> {JStr ''dev'', JStr ''prod''}"
    and "truthy (dict_get kvs ''user_id'' JNull)"
    and "(truthy (dict_get kvs ''image_tag'' JNull) \<and> image_tag = dict_get kvs ''image_tag'' JNull)
         \<or> (\<not> truthy (dict_get kvs ''image_tag'' JNull)
             \<and> fst (get_last_successful_image_tag E environment []) = Inr image_tag
             \<and> truthy image_tag)"
  shows "\<exists>t0. filter is_update t0 = []
          \<and> lambda_handler E event =
              (case rollback E (dict_get kvs ''user_id'' JNull) environment
                      (dict_get kvs ''rollback_type'' (JStr ''terraform'')) image_tag
                      (dict_get kvs ''reason'' (JStr ''Manual rollback via UI'')) t0 of
                 (Inr result, t) \<Rightarrow> (result, t)
               | (Inl e, t) \<Rightarrow>
                   (error_response E 500 (''Internal server error: '' @ str_exn E e),
                    t @ [Print (''Error: '' @ str_exn E e)]))"
  using assms(5)
proof
  assume a: "truthy (dict_get kvs ''image_tag'' JNull) \<and> image_tag = dict_get kvs ''image_tag'' JNull"
  show ?thesis
    using a assms(1-4) lambda_handler_tagged [of E event kvs]
    by (intro exI [where x = "[]"]) auto
next
  assume a: "\<not> truthy (dict_get kvs ''image_tag'' JNull)
             \<and> fst (get_last_successful_image_tag E environment []) = Inr image_tag
             \<and> truthy image_tag"
  obtain t0 where g: "get_last_successful_image_tag E environment [] = (Inr image_tag, t0)"
    using a by (cases "get_last_successful_image_tag E environment []") auto
  have "filter is_update t0 = []"
    using resolver_no_update [of E environment "[]"] g by simp
  then show ?thesis
    using a g assms(1-4) lambda_handler_resolved [of E event kvs image_tag t0]
    by (intro exI [where x = t0]) auto
qed

lemma rollback_trigger_raises:
  assumes "\<And>t. trigger_github_workflow E environment rollback_type image_tag t = (Inl e, t @ cs)"
  shows "\<exists>ps. rollback E user_id environment rollback_type image_tag reason t =
            (Inl e, t @ PutItem (audit_table_name E)
                          (audit_item E (py_str E environment @ ''-''
                                           @ str_int (utcnow_timestamp E AuditId))
                             user_id environment rollback_type image_tag reason) # ps @ cs)
          \<and> filter is_update ps = []"
  by (cases "dynamodb_reply E (PutItem (audit_table_name E)
              (audit_item E (py_str E environment @ ''-'' @ str_int (utcnow_timestamp E AuditId))
                 user_id environment rollback_type image_tag reason))")
    (simp_all add: rollback_run log_rollback_request_run assms)

lemma rollback_trigger_returns:
  assumes "\<And>t. trigger_github_workflow E environment rollback_type image_tag t
                 = (Inr workflow_run_id, t @ cs)"
  shows "\<exists>audit_id t'. rollback E user_id environment rollback_type image_tag reason t =
            (Inr (success_response E audit_id workflow_run_id environment rollback_type image_tag),
             t')"
  by (cases "dynamodb_reply E (PutItem (audit_table_name E)
              (audit_item E (py_str E environment @ ''-'' @ str_int (utcnow_timestamp E AuditId))
                 user_id environment rollback_type image_tag reason))")
    (auto simp add: rollback_run log_rollback_request_run assms)

text \<open>
  C7, as amended. A request that reaches the dispatcher and whose dispatch POST is answered
  with a status from 400 to 599: \<open>raise_for_status\<close> raises the library's HTTP error, the
  dispatcher lets it through, and the handler answers 500 with that message after
  \<open>Internal server error: \<close> in its body.
\<close>

theorem C7_dispatch_error_is_500:
  assumes "parse_body E event = Inr (JObj kvs)"
    and "environment = dict_get kvs ''environment'' JNull"
    and "rollback_type = dict_get kvs ''rollback_type'' (JStr ''terraform'')"
    and "environment \<in> {JStr ''dev'', JStr ''prod''}"
    and "truthy (dict_get kvs ''user_id'' JNull)"
    and "(truthy (dict_get kvs ''image_tag'' JNull) \<and> image_tag = dict_get kvs ''image_tag'' JNull)
         \<or> (\<not> truthy (dict_get kvs ''image_tag'' JNull)
             \<and> fst (get_last_successful_image_tag E environment []) = Inr image_tag
             \<and> truthy image_tag)"
    and "requests_reply E Dispatch (dispatch_request E environment rollback_type image_tag) = Inr r"
    and "400 \<le> status_code r" and "status_code r < 600"
    and "m = str_int (status_code r)
             @ (if status_code r < 500 then '' Client Error: '' else '' Server Error: '')
             @ reason_phrase r @ '' for url: '' @ response_url r"
  shows "fst (trigger_github_workflow E environment rollback_type image_tag t) = Inl (HTTPError m)
         \<and> statusCode (fst (lambda_handler E event)) = 500
         \<and> body (fst (lambda_handler E event)) =
             json_dumps E (JObj [(''status'', JStr ''error''),
                                 (''message'', JStr (''Internal server error: '' @ m))])"
proof -
  have r: "raise_for_status r = Inl (HTTPError m)"
    using assms(8-10) by (simp add: raise_for_status_def)
  have trig: "\<And>t. trigger_github_workflow E environment rollback_type image_tag t =
      (Inl (HTTPError m),
       t @ [Request Dispatch (dispatch_request E environment rollback_type image_tag)])"
    using trigger_dispatch_rejected [OF assms(7) r] by simp
  obtain t0 where h: "lambda_handler E event =
              (case rollback E (dict_get kvs ''user_id'' JNull) environment
                      (dict_get kvs ''rollback_type'' (JStr ''terraform'')) image_tag
                      (dict_get kvs ''reason'' (JStr ''Manual rollback via UI'')) t0 of
                 (Inr result, t) \<Rightarrow> (result, t)
               | (Inl e, t) \<Rightarrow>
                   (error_response E 500 (''Internal server error: '' @ str_exn E e),
                    t @ [Print (''Error: '' @ str_exn E e)]))"
    using lambda_handler_reaches_rollback [OF assms(1,2,4,5,6)] by blast
  obtain ps where "rollback E (dict_get kvs ''user_id'' JNull) environment
                      rollback_type image_tag
                      (dict_get kvs ''reason'' (JStr ''Manual rollback via UI'')) t0 =
            (Inl (HTTPError m), t0 @ PutItem (audit_table_name E)
                          (audit_item E (py_str E environment @ ''-''
                                           @ str_int (utcnow_timestamp E AuditId))
                             (dict_get kvs ''user_id'' JNull) environment rollback_type image_tag
                             (dict_get kvs ''reason'' (JStr ''Manual rollback via UI'')))
                    # ps @ [Request Dispatch (dispatch_request E environment rollback_type image_tag)])"
    using rollback_trigger_raises [of E environment rollback_type image_tag "HTTPError m", OF trig]
    by blast
  then have "fst (lambda_handler E event) = error_response E 500 (''Internal server error: '' @ m)"
    using h assms(3) by simp
  then show ?thesis
    by (simp add: trig error_response_def)
qed


theorem C7_dispatch_error_is_500_witness:
  "statusCode (fst (lambda_handler rejecting_env example_event)) = 500
   \<and> body (fst (lambda_handler rejecting_env example_event)) =
       json_dumps rejecting_env
         (JObj [(''status'', JStr ''error''),
                (''message'', JStr (''Internal server error: '' @ str_int 422
                   @ '' Client Error: Unprocessable Entity for url: https://api.github.com/''))])"
proof -
  have 1: "parse_body rejecting_env example_event = Inr (JObj example_body)"
    by (simp add: parse_body_def example_event_def)
  have 2: "JStr ''prod'' = dict_get example_body ''environment'' JNull"
    by (simp add: dict_get_def example_body_def)
  have 3: "JStr ''terraform'' = dict_get example_body ''rollback_type'' (JStr ''terraform'')"
    by (simp add: dict_get_def example_body_def)
  have 4: "JStr ''prod'' \<in> {JStr ''dev'', JStr ''prod''}"
    by simp
  have 5: "truthy (dict_get example_body ''user_id'' JNull)"
    by (simp add: dict_get_def example_body_def)
  have 6: "(truthy (dict_get example_body ''image_tag'' JNull)
            \<and> JStr ''abc123d'' = dict_get example_body ''image_tag'' JNull)
         \<or> (\<not> truthy (dict_get example_body ''image_tag'' JNull)
             \<and> fst (get_last_successful_image_tag rejecting_env (JStr ''prod'') []) = Inr (JStr ''abc123d'')
             \<and> truthy (JStr ''abc123d''))"
    by (simp add: dict_get_def example_body_def)
  have 7: "requests_reply rejecting_env Dispatch
             (dispatch_request rejecting_env (JStr ''prod'') (JStr ''terraform'') (JStr ''abc123d''))
           = Inr (status_response 422 ''Unprocessable Entity'')"
    by (simp add: rejecting_env_def example_env_def)
  have 8: "400 \<le> status_code (status_response 422 ''Unprocessable Entity'')"
    by (simp add: status_response_def)
  have 9: "status_code (status_response 422 ''Unprocessable Entity'') < 600"
    by (simp add: status_response_def)
  have 10: "str_int 422 @ '' Client Error: Unprocessable Entity for url: https://api.github.com/''
            = str_int (status_code (status_response 422 ''Unprocessable Entity''))
              @ (if status_code (status_response 422 ''Unprocessable Entity'') < 500
                 then '' Client Error: '' else '' Server Error: '')
              @ reason_phrase (status_response 422 ''Unprocessable Entity'') @ '' for url: ''
              @ response_url (status_response 422 ''Unprocessable Entity'')"
    by (simp add: status_response_def)
  show ?thesis
    using C7_dispatch_error_is_500 [OF 1 2 3 4 5 6 7 8 9 10, of "[]"] by simp
qed

text \<open>
  C7 as stated fails: a dispatch POST answered 304 is not a 2xx answer, yet
  \<open>raise_for_status\<close> stays silent and the handler answers 200.
\<close>

theorem C7_counterexample:
  "requests_reply not_modified_env Dispatch
     (dispatch_request not_modified_env (JStr ''prod'') (JStr ''terraform'') (JStr ''abc123d''))
     = Inr (status_response 304 ''Not Modified'')
   \<and> status_code (status_response 304 ''Not Modified'') = 304
   \<and> statusCode (fst (lambda_handler not_modified_env example_event)) = 200"
proof -
  have 1: "parse_body not_modified_env example_event = Inr (JObj example_body)"
    by (simp add: parse_body_def example_event_def)
  have 2: "dict_get example_body ''environment'' JNull \<in> {JStr ''dev'', JStr ''prod''}"
    by (simp add: dict_get_def example_body_def)
  have 3: "truthy (dict_get example_body ''user_id'' JNull)"
    by (simp add: dict_get_def example_body_def)
  have 4: "truthy (dict_get example_body ''image_tag'' JNull)"
    by (simp add: dict_get_def example_body_def)
  have 5: "requests_reply not_modified_env Dispatch
             (dispatch_request not_modified_env (dict_get example_body ''environment'' JNull)
                (dict_get example_body ''rollback_type'' (JStr ''terraform''))
                (dict_get example_body ''image_tag'' JNull))
           = Inr (status_response 304 ''Not Modified'')"
    by (simp add: not_modified_env_def example_env_def)
  have 6: "raise_for_status (status_response 304 ''Not Modified'') = Inr ()"
    by (simp add: raise_for_status_def status_response_def)
  have 7: "requests_reply not_modified_env Correlate (correlate_request not_modified_env)
           = Inr (ok_response (JObj [(''workflow_runs'', JArr [JObj [(''id'', JInt 42)]])]))"
    by (simp add: not_modified_env_def example_env_def example_replies_def)
  have 8: "raise_for_status (ok_response (JObj [(''workflow_runs'', JArr [JObj [(''id'', JInt 42)]])]))
           = Inr ()"
    by (simp add: raise_for_status_def ok_response_def)
  have 9: "json_result (ok_response (JObj [(''workflow_runs'', JArr [JObj [(''id'', JInt 42)]])]))
           = Inr (JObj [(''workflow_runs'', JArr [JObj [(''id'', JInt 42)]])])"
    by (simp add: ok_response_def)
  have trig: "\<And>t. trigger_github_workflow not_modified_env
                 (dict_get example_body ''environment'' JNull)
                 (dict_get example_body ''rollback_type'' (JStr ''terraform''))
                 (dict_get example_body ''image_tag'' JNull) t =
               (Inr (str_int 42),
                t @ [Request Dispatch (dispatch_request not_modified_env
                        (dict_get example_body ''environment'' JNull)
                        (dict_get example_body ''rollback_type'' (JStr ''terraform''))
                        (dict_get example_body ''image_tag'' JNull)),
                     Sleep 2, Request Correlate (correlate_request not_modified_env)])"
    using trigger_correlated [OF 5 6 7 8 9] by (simp add: dict_get_def)
  obtain audit_id t' where
    "rollback not_modified_env (dict_get example_body ''user_id'' JNull)
       (dict_get example_body ''environment'' JNull)
       (dict_get example_body ''rollback_type'' (JStr ''terraform''))
       (dict_get example_body ''image_tag'' JNull)
       (dict_get example_body ''reason'' (JStr ''Manual rollback via UI'')) [] =
     (Inr (success_response not_modified_env audit_id (str_int 42)
             (dict_get example_body ''environment'' JNull)
             (dict_get example_body ''rollback_type'' (JStr ''terraform''))
             (dict_get example_body ''image_tag'' JNull)), t')"
    using rollback_trigger_returns [OF trig] by blast
  then have "statusCode (fst (lambda_handler not_modified_env example_event)) = 200"
    using lambda_handler_tagged [OF 1 2 3 4] by (simp add: success_response_def)
  moreover have "requests_reply not_modified_env Dispatch
     (dispatch_request not_modified_env (JStr ''prod'') (JStr ''terraform'') (JStr ''abc123d''))
     = Inr (status_response 304 ''Not Modified'')"
    by (simp add: not_modified_env_def example_env_def)
  ultimately show ?thesis
    by (simp add: status_response_def)
qed

text \<open>
  C9. A request that reaches the dispatcher, whose dispatch POST is answered 2xx, and whose
  correlation lookup fails: the request itself raises, or its answer has an error status
  and \<open>raise_for_status\<close> raises. The exception leaves the dispatcher, the handler
  answers 500 with its message, and no update of the audit record is among the calls made:
  the record written before the dispatch, with status \<open>initiated\<close>, is all the audit
  store was sent, although the dispatch POST went out.
\<close>

theorem C9_correlation_failure_is_500:
  assumes "parse_body E event = Inr (JObj kvs)"
    and "environment = dict_get kvs ''environment'' JNull"
    and "rollback_type = dict_get kvs ''rollback_type'' (JStr ''terraform'')"
    and "environment \<in> {JStr ''dev'', JStr ''prod''}"
    and "truthy (dict_get kvs ''user_id'' JNull)"
    and "(truthy (dict_get kvs ''image_tag'' JNull) \<and> image_tag = dict_get kvs ''image_tag'' JNull)
         \<or> (\<not> truthy (dict_get kvs ''image_tag'' JNull)
             \<and> fst (get_last_successful_image_tag E environment []) = Inr image_tag
             \<and> truthy image_tag)"
    and "requests_reply E Dispatch (dispatch_request E environment rollback_type image_tag) = Inr r"
    and "200 \<le> status_code r" and "status_code r < 300"
    and "requests_reply E Correlate (correlate_request E) = Inl e
         \<or> (\<exists>r'. requests_reply E Correlate (correlate_request E) = Inr r'
                 \<and> raise_for_status r' = Inl e)"
    and "item = audit_item E (py_str E environment @ ''-'' @ str_int (utcnow_timestamp E AuditId))
                  (dict_get kvs ''user_id'' JNull) environment rollback_type image_tag
                  (dict_get kvs ''reason'' (JStr ''Manual rollback via UI''))"
  shows "statusCode (fst (lambda_handler E event)) = 500
         \<and> body (fst (lambda_handler E event)) =
             json_dumps E (JObj [(''status'', JStr ''error''),
                                 (''message'', JStr (''Internal server error: '' @ str_exn E e))])
         \<and> filter is_update (snd (lambda_handler E event)) = []
         \<and> PutItem (audit_table_name E) item \<in> set (snd (lambda_handler E event))
         \<and> map_of item ''status'' = Some (JStr ''initiated'')
         \<and> Request Dispatch (dispatch_request E environment rollback_type image_tag)
             \<in> set (snd (lambda_handler E event))"
proof -
  have r: "raise_for_status r = Inr ()"
    using assms(8,9) by (simp add: raise_for_status_def)
  have trig: "\<And>t. trigger_github_workflow E environment rollback_type image_tag t =
      (Inl e,
       t @ [Request Dispatch (dispatch_request E environment rollback_type image_tag),
            Sleep 2, Request Correlate (correlate_request E)])"
    using assms(10) trigger_correlate_raises [OF assms(7) r]
      trigger_correlate_rejected [OF assms(7) r]
    by blast
  obtain t0 where t0: "filter is_update t0 = []"
    and h: "lambda_handler E event =
              (case rollback E (dict_get kvs ''user_id'' JNull) environment
                      (dict_get kvs ''rollback_type'' (JStr ''terraform'')) image_tag
                      (dict_get kvs ''reason'' (JStr ''Manual rollback via UI'')) t0 of
                 (Inr result, t) \<Rightarrow> (result, t)
               | (Inl e, t) \<Rightarrow>
                   (error_response E 500 (''Internal server error: '' @ str_exn E e),
                    t @ [Print (''Error: '' @ str_exn E e)]))"
    using lambda_handler_reaches_rollback [OF assms(1,2,4,5,6)] by blast
  obtain ps where ps: "filter is_update ps = []"
    and roll: "rollback E (dict_get kvs ''user_id'' JNull) environment
                      rollback_type image_tag
                      (dict_get kvs ''reason'' (JStr ''Manual rollback via UI'')) t0 =
            (Inl e, t0 @ PutItem (audit_table_name E) item
                    # ps @ [Request Dispatch (dispatch_request E environment rollback_type image_tag),
                            Sleep 2, Request Correlate (correlate_request E)])"
    using rollback_trigger_raises [of E environment rollback_type image_tag e, OF trig]
      assms(11) by blast
  have l: "lambda_handler E event =
             (error_response E 500 (''Internal server error: '' @ str_exn E e),
              (t0 @ PutItem (audit_table_name E) item
                    # ps @ [Request Dispatch (dispatch_request E environment rollback_type image_tag),
                            Sleep 2, Request Correlate (correlate_request E)])
              @ [Print (''Error: '' @ str_exn E e)])"
    using h roll assms(3) by simp
  have i: "map_of item ''status'' = Some (JStr ''initiated'')"
    by (simp add: assms(11) audit_item_def)
  show ?thesis
    by (simp add: l i t0 ps error_response_def)
qed

theorem C9_correlation_failure_is_500_witness:
  "statusCode (fst (lambda_handler correlation_down_env example_event)) = 500
   \<and> filter is_update (snd (lambda_handler correlation_down_env example_event)) = []"
proof -
  have 1: "parse_body correlation_down_env example_event = Inr (JObj example_body)"
    by (simp add: parse_body_def example_event_def)
  have 2: "JStr ''prod'' = dict_get example_body ''environment'' JNull"
    by (simp add: dict_get_def example_body_def)
  have 3: "JStr ''terraform'' = dict_get example_body ''rollback_type'' (JStr ''terraform'')"
    by (simp add: dict_get_def example_body_def)
  have 4: "JStr ''prod'' \<in> {JStr ''dev'', JStr ''prod''}"
    by simp
  have 5: "truthy (dict_get example_body ''user_id'' JNull)"
    by (simp add: dict_get_def example_body_def)
  have 6: "(truthy (dict_get example_body ''image_tag'' JNull)
            \<and> JStr ''abc123d'' = dict_get example_body ''image_tag'' JNull)
         \<or> (\<not> truthy (dict_get example_body ''image_tag'' JNull)
             \<and> fst (get_last_successful_image_tag correlation_down_env (JStr ''prod'') [])
                 = Inr (JStr ''abc123d'')
             \<and> truthy (JStr ''abc123d''))"
    by (simp add: dict_get_def example_body_def)
  have 7: "requests_reply correlation_down_env Dispatch
             (dispatch_request correlation_down_env (JStr ''prod'') (JStr ''terraform'')
                (JStr ''abc123d''))
           = Inr (status_response 204 ''No Content'')"
    by (simp add: correlation_down_env_def example_env_def example_replies_def)
  have 8: "200 \<le> status_code (status_response 204 ''No Content'')"
    by (simp add: status_response_def)
  have 9: "status_code (status_response 204 ''No Content'') < 300"
    by (simp add: status_response_def)
  have 10: "requests_reply correlation_down_env Correlate (correlate_request correlation_down_env)
              = Inl (RequestException ''Connection aborted.'')
         \<or> (\<exists>r'. requests_reply correlation_down_env Correlate
                     (correlate_request correlation_down_env) = Inr r'
                 \<and> raise_for_status r' = Inl (RequestException ''Connection aborted.''))"
    by (simp add: correlation_down_env_def example_env_def)
  show ?thesis
    using C9_correlation_failure_is_500 [OF 1 2 3 4 5 6 7 8 9 10 refl] by simp
qed

text \<open>Nothing but the two audit operations looks at the answers of the audit store.\<close>

lemma py_str_store [simp]: "py_str (E\<lparr>dynamodb_reply := d\<rparr>) x = py_str E x"
  by (cases x) simp_all

lemma str_exn_store [simp]: "str_exn (E\<lparr>dynamodb_reply := d\<rparr>) e = str_exn E e"
  by (cases e) simp_all

lemma api_store [simp]:
  "api_headers (E\<lparr>dynamodb_reply := d\<rparr>) = api_headers E"
  "api_repo (E\<lparr>dynamodb_reply := d\<rparr>) = api_repo E"
  by (simp_all add: api_headers_def api_repo_def)

lemma requests_get_store [simp]:
  "requests_get (E\<lparr>dynamodb_reply := d\<rparr>) s u hs ps = requests_get E s u hs ps"
  by (simp add: requests_get_def split: json.splits)

lemma requests_post_store [simp]:
  "requests_post (E\<lparr>dynamodb_reply := d\<rparr>) s a hs p = requests_post E s a hs p"
  by (simp add: requests_post_def)

lemma find_artifact_store [simp]:
  "find_artifact (E\<lparr>dynamodb_reply := d\<rparr>) environment latest_run items
     = find_artifact E environment latest_run items"
  by (induction items) (simp_all cong: if_cong)

lemma resolver_store [simp]:
  "get_last_successful_image_tag (E\<lparr>dynamodb_reply := d\<rparr>) environment
     = get_last_successful_image_tag E environment"
  by (simp add: get_last_successful_image_tag_def get_last_successful_image_tag_try_def
      cong: if_cong)

lemma trigger_store [simp]:
  "trigger_github_workflow (E\<lparr>dynamodb_reply := d\<rparr>) environment rollback_type image_tag
     = trigger_github_workflow E environment rollback_type image_tag"
  by (simp add: trigger_github_workflow_def cong: if_cong)

lemma parse_body_store [simp]:
  "parse_body (E\<lparr>dynamodb_reply := d\<rparr>) event = parse_body E event"
  by (simp add: parse_body_def split: option.splits json.splits)

lemma error_response_store [simp]:
  "error_response (E\<lparr>dynamodb_reply := d\<rparr>) code m = error_response E code m"
  by (simp add: error_response_def)

lemma success_response_store [simp]:
  "success_response (E\<lparr>dynamodb_reply := d\<rparr>) a w environment rollback_type image_tag
     = success_response E a w environment rollback_type image_tag"
  by (simp add: success_response_def)

text \<open>What the dispatcher returns does not depend on the calls made before it.\<close>

lemma trigger_correlate_answered:
  assumes "requests_reply E Dispatch (dispatch_request E environment rollback_type image_tag) = Inr r"
    and "raise_for_status r = Inr ()"
    and "requests_reply E Correlate (correlate_request E) = Inr r'"
    and "raise_for_status r' = Inr ()"
  shows "trigger_github_workflow E environment rollback_type image_tag t =
           ((case json_result r' of
               Inl e \<Rightarrow> Inl e
             | Inr doc \<Rightarrow>
                 (case py_get doc ''workflow_runs'' (JArr []) of
                    Inl e \<Rightarrow> Inl e
                  | Inr runs \<Rightarrow>
                      if truthy runs
                      then (case py_first runs of
                              Inl e \<Rightarrow> Inl e
                            | Inr run \<Rightarrow> (case py_item run ''id'' of
                                 Inl e \<Rightarrow> Inl e
                               | Inr run_id \<Rightarrow> Inr (py_str E run_id)))
                      else Inr ''unknown'')),
            t @ [Request Dispatch (dispatch_request E environment rollback_type image_tag),
                 Sleep 2, Request Correlate (correlate_request E)])"
  using assms
  by (simp add: trigger_github_workflow_def dispatch_request_def correlate_request_def
      requests_post_def requests_get_def io_defs split: sum.splits)

lemma trigger_fst:
  "fst (trigger_github_workflow E environment rollback_type image_tag t)
     = fst (trigger_github_workflow E environment rollback_type image_tag [])"
proof (cases "requests_reply E Dispatch (dispatch_request E environment rollback_type image_tag)")
  case (Inl e)
  then show ?thesis by (simp add: trigger_dispatch_raises)
next
  case (Inr r)
  note d = this
  show ?thesis
  proof (cases "raise_for_status r")
    case (Inl e)
    then show ?thesis using d by (simp add: trigger_dispatch_rejected)
  next
    case (Inr u)
    then have ok: "raise_for_status r = Inr ()" by simp
    show ?thesis
    proof (cases "requests_reply E Correlate (correlate_request E)")
      case (Inl e)
      then show ?thesis using d ok by (simp add: trigger_correlate_raises)
    next
      case (Inr r')
      note c = this
      show ?thesis
      proof (cases "raise_for_status r'")
        case (Inl e)
        then show ?thesis using d ok c by (simp add: trigger_correlate_rejected)
      next
        case (Inr u')
        then have "raise_for_status r' = Inr ()" by simp
        then show ?thesis using d ok c by (simp add: trigger_correlate_answered)
      qed
    qed
  qed
qed


lemma rollback_outcome:
  "fst (rollback E user_id environment rollback_type image_tag reason t) =
     (case fst (trigger_github_workflow E environment rollback_type image_tag []) of
        Inl e \<Rightarrow> Inl e
      | Inr workflow_run_id \<Rightarrow>
          Inr (success_response E
                 (case dynamodb_reply E (PutItem (audit_table_name E)
                         (audit_item E (py_str E environment @ ''-''
                                          @ str_int (utcnow_timestamp E AuditId))
                            user_id environment rollback_type image_tag reason)) of
                    None \<Rightarrow> py_str E environment @ ''-'' @ str_int (utcnow_timestamp E AuditId)
                  | Some x \<Rightarrow> ''audit-'' @ str_int (utcnow_timestamp E Fallback))
                 workflow_run_id environment rollback_type image_tag))"
proof -
  have "\<And>t1. fst (case trigger_github_workflow E environment rollback_type image_tag t1 of
                     (Inl e, t2) \<Rightarrow> (Inl e, t2)
                   | (Inr w, t2) \<Rightarrow> (Inr (f w), g w t2))
          = (case fst (trigger_github_workflow E environment rollback_type image_tag []) of
               Inl e \<Rightarrow> Inl e | Inr w \<Rightarrow> Inr (f w))" for f :: "string \<Rightarrow> response" and g
  proof -
    fix t1
    show "fst (case trigger_github_workflow E environment rollback_type image_tag t1 of
                     (Inl e, t2) \<Rightarrow> (Inl e, t2)
                   | (Inr w, t2) \<Rightarrow> (Inr (f w), g w t2))
          = (case fst (trigger_github_workflow E environment rollback_type image_tag []) of
               Inl e \<Rightarrow> Inl e | Inr w \<Rightarrow> Inr (f w))"
      using trigger_fst [of E environment rollback_type image_tag t1]
      by (cases "trigger_github_workflow E environment rollback_type image_tag t1")
         (auto split: sum.splits)
  qed
  then show ?thesis
    by (cases "dynamodb_reply E (PutItem (audit_table_name E)
              (audit_item E (py_str E environment @ ''-'' @ str_int (utcnow_timestamp E AuditId))
                 user_id environment rollback_type image_tag reason))")
      (simp_all add: rollback_run log_rollback_request_run cong: sum.case_cong)
qed

text \<open>
  What the audit store answers reaches the response through the audit id of a successful
  rollback, and through nothing else.
\<close>

lemma audit_item_store [simp]:
  "audit_item (E\<lparr>dynamodb_reply := d\<rparr>) audit_id user_id environment rollback_type image_tag reason
     = audit_item E audit_id user_id environment rollback_type image_tag reason"
  by (simp add: audit_item_def)

lemma handler_result_fst:
  "fst (case p of (Inr result, t) \<Rightarrow> (result, t) | (Inl e, t) \<Rightarrow> (g e, h e t))
     = (case fst p of Inl e \<Rightarrow> g e | Inr result \<Rightarrow> result)"
  by (cases p; cases "fst p") auto

lemma rollback_store_effect:
  assumes "fst (lambda_handler E event) =
             (case fst (rollback E user_id environment rollback_type image_tag reason t) of
                Inl e \<Rightarrow> error_response E 500 (''Internal server error: '' @ str_exn E e)
              | Inr result \<Rightarrow> result)"
    and "fst (lambda_handler (E\<lparr>dynamodb_reply := d\<rparr>) event) =
             (case fst (rollback (E\<lparr>dynamodb_reply := d\<rparr>) user_id environment rollback_type
                          image_tag reason t') of
                Inl e \<Rightarrow> error_response E 500 (''Internal server error: '' @ str_exn E e)
              | Inr result \<Rightarrow> result)"
  shows "fst (lambda_handler (E\<lparr>dynamodb_reply := d\<rparr>) event) = fst (lambda_handler E event)
         \<or> (\<exists>workflow_run_id user_id environment rollback_type image_tag reason.
               fst (lambda_handler E event)
                 = success_response E
                     (case dynamodb_reply E (PutItem (audit_table_name E)
                             (audit_item E (py_str E environment @ ''-''
                                              @ str_int (utcnow_timestamp E AuditId))
                                user_id environment rollback_type image_tag reason)) of
                        None \<Rightarrow> py_str E environment @ ''-'' @ str_int (utcnow_timestamp E AuditId)
                      | Some x \<Rightarrow> ''audit-'' @ str_int (utcnow_timestamp E Fallback))
                     workflow_run_id environment rollback_type image_tag
               \<and> fst (lambda_handler (E\<lparr>dynamodb_reply := d\<rparr>) event)
                 = success_response E
                     (case d (PutItem (audit_table_name E)
                             (audit_item E (py_str E environment @ ''-''
                                              @ str_int (utcnow_timestamp E AuditId))
                                user_id environment rollback_type image_tag reason)) of
                        None \<Rightarrow> py_str E environment @ ''-'' @ str_int (utcnow_timestamp E AuditId)
                      | Some x \<Rightarrow> ''audit-'' @ str_int (utcnow_timestamp E Fallback))
                     workflow_run_id environment rollback_type image_tag)"
proof (cases "fst (trigger_github_workflow E environment rollback_type image_tag [])")
  case (Inl e)
  then have "fst (lambda_handler (E\<lparr>dynamodb_reply := d\<rparr>) event) = fst (lambda_handler E event)"
    by (simp add: assms rollback_outcome)
  then show ?thesis by blast
next
  case (Inr w)
  have 1: "fst (lambda_handler E event)
                 = success_response E
                     (case dynamodb_reply E (PutItem (audit_table_name E)
                             (audit_item E (py_str E environment @ ''-''
                                              @ str_int (utcnow_timestamp E AuditId))
                                user_id environment rollback_type image_tag reason)) of
                        None \<Rightarrow> py_str E environment @ ''-'' @ str_int (utcnow_timestamp E AuditId)
                      | Some x \<Rightarrow> ''audit-'' @ str_int (utcnow_timestamp E Fallback))
                     w environment rollback_type image_tag"
    using Inr by (simp add: assms(1) rollback_outcome)
  have 2: "fst (lambda_handler (E\<lparr>dynamodb_reply := d\<rparr>) event)
                 = success_response E
                     (case d (PutItem (audit_table_name E)
                             (audit_item E (py_str E environment @ ''-''
                                              @ str_int (utcnow_timestamp E AuditId))
                                user_id environment rollback_type image_tag reason)) of
                        None \<Rightarrow> py_str E environment @ ''-'' @ str_int (utcnow_timestamp E AuditId)
                      | Some x \<Rightarrow> ''audit-'' @ str_int (utcnow_timestamp E Fallback))
                     w environment rollback_type image_tag"
    using Inr by (simp add: assms(2) rollback_outcome cong: option.case_cong)
  show ?thesis using 1 2 by blast
qed

lemma lambda_handler_store_effect:
  "fst (lambda_handler (E\<lparr>dynamodb_reply := d\<rparr>) event) = fst (lambda_handler E event)
         \<or> (\<exists>workflow_run_id user_id environment rollback_type image_tag reason.
               fst (lambda_handler E event)
                 = success_response E
                     (case dynamodb_reply E (PutItem (audit_table_name E)
                             (audit_item E (py_str E environment @ ''-''
                                              @ str_int (utcnow_timestamp E AuditId))
                                user_id environment rollback_type image_tag reason)) of
                        None \<Rightarrow> py_str E environment @ ''-'' @ str_int (utcnow_timestamp E AuditId)
                      | Some x \<Rightarrow> ''audit-'' @ str_int (utcnow_timestamp E Fallback))
                     workflow_run_id environment rollback_type image_tag
               \<and> fst (lambda_handler (E\<lparr>dynamodb_reply := d\<rparr>) event)
                 = success_response E
                     (case d (PutItem (audit_table_name E)
                             (audit_item E (py_str E environment @ ''-''
                                              @ str_int (utcnow_timestamp E AuditId))
                                user_id environment rollback_type image_tag reason)) of
                        None \<Rightarrow> py_str E environment @ ''-'' @ str_int (utcnow_timestamp E AuditId)
                      | Some x \<Rightarrow> ''audit-'' @ str_int (utcnow_timestamp E Fallback))
                     workflow_run_id environment rollback_type image_tag)"
  (is "?same \<or> ?differ")
proof (cases "parse_body E event")
  case (Inl e)
  then have ?same
    by (simp add: lambda_handler_def io_bind_def io_lift_def)
  then show ?thesis by blast
next
  case (Inr parsed)
  note p = this
  show ?thesis
  proof (cases "\<exists>kvs. parsed = JObj kvs")
    case False
    then have "py_get parsed k v = Inl (AttributeError parsed ''get'')" for k v
      by (cases parsed) simp_all
    then have ?same using p
      by (simp add: lambda_handler_def io_bind_def io_lift_def)
    then show ?thesis by blast
  next
    case True
    then obtain kvs where kvs: "parse_body E event = Inr (JObj kvs)" using p by blast
    then have kvs': "parse_body (E\<lparr>dynamodb_reply := d\<rparr>) event = Inr (JObj kvs)" by simp
    show ?thesis
    proof (cases "dict_get kvs ''environment'' JNull \<in> {JStr ''dev'', JStr ''prod''}
                  \<and> truthy (dict_get kvs ''user_id'' JNull)")
      case False
      then have ?same using kvs
        by (auto simp add: lambda_handler_def io_bind_def io_lift_def io_return_def)
      then show ?thesis by blast
    next
      case True
      then have env: "dict_get kvs ''environment'' JNull \<in> {JStr ''dev'', JStr ''prod''}"
        and user: "truthy (dict_get kvs ''user_id'' JNull)" by blast+
      show ?thesis
      proof (cases "truthy (dict_get kvs ''image_tag'' JNull)")
        case True
        show ?thesis
          by (rule rollback_store_effect [where t = "[]" and t' = "[]"])
            (simp_all add: lambda_handler_tagged [OF kvs env user True]
               lambda_handler_tagged [OF kvs' env user True] handler_result_fst
               cong: sum.case_cong)
      next
        case False
        obtain v t0 where r: "get_last_successful_image_tag E (dict_get kvs ''environment'' JNull) []
                                = (Inr v, t0)"
          using get_last_successful_image_tag_returns by blast
        then have r': "get_last_successful_image_tag (E\<lparr>dynamodb_reply := d\<rparr>)
                         (dict_get kvs ''environment'' JNull) [] = (Inr v, t0)" by simp
        show ?thesis
        proof (cases "truthy v")
          case True
          show ?thesis
            by (rule rollback_store_effect [where t = t0 and t' = t0])
              (simp_all add: lambda_handler_resolved [OF kvs env user False r True]
                 lambda_handler_resolved [OF kvs' env user False r' True] handler_result_fst
                 cong: sum.case_cong)
        next
          case unresolved: False
          have ?same
            by (simp add: lambda_handler_unresolved [OF kvs env user False r unresolved]
                lambda_handler_unresolved [OF kvs' env user False r' unresolved])
          then show ?thesis by blast
        qed
      qed
    qed
  qed
qed

text \<open>
  C6. What the audit store answers never changes the status of the handler's response, for
  any event: the response is the same whatever the store does, or it is the 200 response
  of a rollback in both cases and only the audit id in it differs. When the store answers
  the creation as before, the whole response is the same, so a failed update changes
  nothing in it. The creation always returns an id: \<open>audit-\<close> and the epoch seconds when
  the write fails. The update always returns, and a failed one leaves a log line. Hence a
  valid request whose dispatch returns a run id is answered 200 with that run id, whatever
  the store does.
\<close>

theorem C6_audit_failures_absorbed:
  "statusCode (fst (lambda_handler (E\<lparr>dynamodb_reply := d\<rparr>) event))
     = statusCode (fst (lambda_handler E event))
   \<and> (fst (lambda_handler (E\<lparr>dynamodb_reply := d\<rparr>) event) = fst (lambda_handler E event)
       \<or> (\<exists>run_id user environment rollback_type image_tag reason.
               fst (lambda_handler E event)
                 = success_response E
                     (case dynamodb_reply E (PutItem (audit_table_name E)
                             (audit_item E (py_str E environment @ ''-''
                                              @ str_int (utcnow_timestamp E AuditId))
                                user environment rollback_type image_tag reason)) of
                        None \<Rightarrow> py_str E environment @ ''-'' @ str_int (utcnow_timestamp E AuditId)
                      | Some x \<Rightarrow> ''audit-'' @ str_int (utcnow_timestamp E Fallback))
                     run_id environment rollback_type image_tag
               \<and> fst (lambda_handler (E\<lparr>dynamodb_reply := d\<rparr>) event)
                 = success_response E
                     (case d (PutItem (audit_table_name E)
                             (audit_item E (py_str E environment @ ''-''
                                              @ str_int (utcnow_timestamp E AuditId))
                                user environment rollback_type image_tag reason)) of
                        None \<Rightarrow> py_str E environment @ ''-'' @ str_int (utcnow_timestamp E AuditId)
                      | Some x \<Rightarrow> ''audit-'' @ str_int (utcnow_timestamp E Fallback))
                     run_id environment rollback_type image_tag))
   \<and> ((\<forall>table item. d (PutItem table item) = dynamodb_reply E (PutItem table item)) \<longrightarrow>
         fst (lambda_handler (E\<lparr>dynamodb_reply := d\<rparr>) event) = fst (lambda_handler E event))
   \<and> fst (log_rollback_request E user_id env rtype tag why t)
       = Inr (case dynamodb_reply E (PutItem (audit_table_name E)
                     (audit_item E (py_str E env @ ''-'' @ str_int (utcnow_timestamp E AuditId))
                        user_id env rtype tag why)) of
                None \<Rightarrow> py_str E env @ ''-'' @ str_int (utcnow_timestamp E AuditId)
              | Some x \<Rightarrow> ''audit-'' @ str_int (utcnow_timestamp E Fallback))
   \<and> fst (update_audit_log E audit_id workflow_run_id t) = Inr ()
   \<and> (dynamodb_reply E (audit_update E audit_id workflow_run_id) = Some e \<longrightarrow>
         snd (update_audit_log E audit_id workflow_run_id t)
           = t @ [audit_update E audit_id workflow_run_id,
                  Print (''Error updating audit log: '' @ str_exn E e)])
   \<and> (parse_body E event = Inr (JObj kvs)
        \<and> dict_get kvs ''environment'' JNull \<in> {JStr ''dev'', JStr ''prod''}
        \<and> truthy (dict_get kvs ''user_id'' JNull)
        \<and> ((truthy (dict_get kvs ''image_tag'' JNull)
               \<and> resolved = dict_get kvs ''image_tag'' JNull)
            \<or> (\<not> truthy (dict_get kvs ''image_tag'' JNull)
               \<and> fst (get_last_successful_image_tag E (dict_get kvs ''environment'' JNull) [])
                     = Inr resolved
               \<and> truthy resolved))
        \<and> fst (trigger_github_workflow E (dict_get kvs ''environment'' JNull)
                  (dict_get kvs ''rollback_type'' (JStr ''terraform'')) resolved []) = Inr w
        \<longrightarrow> statusCode (fst (lambda_handler (E\<lparr>dynamodb_reply := d\<rparr>) event)) = 200
            \<and> (\<exists>a. fst (lambda_handler (E\<lparr>dynamodb_reply := d\<rparr>) event)
                      = success_response E a w (dict_get kvs ''environment'' JNull)
                          (dict_get kvs ''rollback_type'' (JStr ''terraform'')) resolved))"
proof -
  let ?E = "E\<lparr>dynamodb_reply := d\<rparr>"
  note effect = lambda_handler_store_effect [where E = E and d = d and event = event]
  have 1: "statusCode (fst (lambda_handler ?E event)) = statusCode (fst (lambda_handler E event))"
    using effect by (auto simp add: success_response_def)
  have 3: "(\<forall>table item. d (PutItem table item) = dynamodb_reply E (PutItem table item)) \<longrightarrow>
         fst (lambda_handler ?E event) = fst (lambda_handler E event)"
    using effect by auto
  have 4: "fst (log_rollback_request E user_id env rtype tag why t)
       = Inr (case dynamodb_reply E (PutItem (audit_table_name E)
                     (audit_item E (py_str E env @ ''-'' @ str_int (utcnow_timestamp E AuditId))
                        user_id env rtype tag why)) of
                None \<Rightarrow> py_str E env @ ''-'' @ str_int (utcnow_timestamp E AuditId)
              | Some x \<Rightarrow> ''audit-'' @ str_int (utcnow_timestamp E Fallback))"
    by (simp add: log_rollback_request_run split: option.splits)
  have 5: "fst (update_audit_log E audit_id workflow_run_id t) = Inr ()"
    by (simp add: update_audit_log_run split: option.splits)
  have 6: "dynamodb_reply E (audit_update E audit_id workflow_run_id) = Some e \<longrightarrow>
         snd (update_audit_log E audit_id workflow_run_id t)
           = t @ [audit_update E audit_id workflow_run_id,
                  Print (''Error updating audit log: '' @ str_exn E e)]"
    by (simp add: update_audit_log_run)
  have 7: "statusCode (fst (lambda_handler ?E event)) = 200
            \<and> (\<exists>a. fst (lambda_handler ?E event)
                      = success_response E a w (dict_get kvs ''environment'' JNull)
                          (dict_get kvs ''rollback_type'' (JStr ''terraform'')) resolved)"
    if p: "parse_body E event = Inr (JObj kvs)"
      and env: "dict_get kvs ''environment'' JNull \<in> {JStr ''dev'', JStr ''prod''}"
      and user: "truthy (dict_get kvs ''user_id'' JNull)"
      and tag: "(truthy (dict_get kvs ''image_tag'' JNull)
               \<and> resolved = dict_get kvs ''image_tag'' JNull)
            \<or> (\<not> truthy (dict_get kvs ''image_tag'' JNull)
               \<and> fst (get_last_successful_image_tag E (dict_get kvs ''environment'' JNull) [])
                     = Inr resolved
               \<and> truthy resolved)"
      and run: "fst (trigger_github_workflow E (dict_get kvs ''environment'' JNull)
                  (dict_get kvs ''rollback_type'' (JStr ''terraform'')) resolved []) = Inr w"
  proof -
    have p': "parse_body ?E event = Inr (JObj kvs)" using p by simp
    have tag': "(truthy (dict_get kvs ''image_tag'' JNull)
               \<and> resolved = dict_get kvs ''image_tag'' JNull)
            \<or> (\<not> truthy (dict_get kvs ''image_tag'' JNull)
               \<and> fst (get_last_successful_image_tag ?E (dict_get kvs ''environment'' JNull) [])
                     = Inr resolved
               \<and> truthy resolved)"
      using tag by simp
    obtain t0 where h: "lambda_handler ?E event =
              (case rollback ?E (dict_get kvs ''user_id'' JNull) (dict_get kvs ''environment'' JNull)
                      (dict_get kvs ''rollback_type'' (JStr ''terraform'')) resolved
                      (dict_get kvs ''reason'' (JStr ''Manual rollback via UI'')) t0 of
                 (Inr result, t) \<Rightarrow> (result, t)
               | (Inl e, t) \<Rightarrow>
                   (error_response ?E 500 (''Internal server error: '' @ str_exn ?E e),
                    t @ [Print (''Error: '' @ str_exn ?E e)]))"
      using lambda_handler_reaches_rollback [OF p' refl env user tag'] by blast
    have "\<exists>a. fst (lambda_handler ?E event)
                      = success_response E a w (dict_get kvs ''environment'' JNull)
                          (dict_get kvs ''rollback_type'' (JStr ''terraform'')) resolved"
      unfolding h handler_result_fst using run by (auto simp add: rollback_outcome)
    then show ?thesis by (auto simp add: success_response_def)
  qed
  show ?thesis
    using 1 effect 3 4 5 6 7 by blast
qed

theorem C6_audit_failures_absorbed_witness:
  "statusCode (fst (lambda_handler (example_env\<lparr>dynamodb_reply := outage\<rparr>) example_event)) = 200
   \<and> fst (log_rollback_request (example_env\<lparr>dynamodb_reply := outage\<rparr>)
            (JStr ''u@example.com'') (JStr ''prod'') (JStr ''terraform'') (JStr ''abc123d'')
            (JStr ''Manual rollback via UI'') [])
       = Inr ''audit-1700000000''
   \<and> update_audit_log (example_env\<lparr>dynamodb_reply := outage\<rparr>) ''audit-1700000000'' ''42'' []
       = (Inr (), [audit_update example_env ''audit-1700000000'' ''42'',
                   Print ''Error updating audit log: ServiceUnavailable''])
   \<and> fst (lambda_handler (example_env\<lparr>dynamodb_reply := update_outage\<rparr>) example_event)
       = fst (lambda_handler example_env example_event)"
proof -
  let ?E = "example_env\<lparr>dynamodb_reply := outage\<rparr>"
  have 1: "parse_body example_env example_event = Inr (JObj example_body)"
    by (simp add: parse_body_def example_event_def)
  have e: "dict_get example_body ''environment'' JNull = JStr ''prod''"
    by (simp add: dict_get_def example_body_def)
  have r: "dict_get example_body ''rollback_type'' (JStr ''terraform'') = JStr ''terraform''"
    by (simp add: dict_get_def example_body_def)
  have 2: "dict_get example_body ''environment'' JNull \<in> {JStr ''dev'', JStr ''prod''}"
    by (simp add: e)
  have 3: "truthy (dict_get example_body ''user_id'' JNull)"
    by (simp add: dict_get_def example_body_def)
  have 4: "(truthy (dict_get example_body ''image_tag'' JNull)
               \<and> JStr ''abc123d'' = dict_get example_body ''image_tag'' JNull)
            \<or> (\<not> truthy (dict_get example_body ''image_tag'' JNull)
               \<and> fst (get_last_successful_image_tag example_env
                        (dict_get example_body ''environment'' JNull) [])
                     = Inr (JStr ''abc123d'')
               \<and> truthy (JStr ''abc123d''))"
    by (simp add: dict_get_def example_body_def)
  have 9: "requests_reply example_env Dispatch
             (dispatch_request example_env (JStr ''prod'') (JStr ''terraform'') (JStr ''abc123d''))
           = Inr (status_response 204 ''No Content'')"
    by (simp add: example_env_def example_replies_def)
  have 10: "raise_for_status (status_response 204 ''No Content'') = Inr ()"
    by (simp add: raise_for_status_def status_response_def)
  have 11: "requests_reply example_env Correlate (correlate_request example_env)
            = Inr (ok_response (JObj [(''workflow_runs'', JArr [JObj [(''id'', JInt 42)]])]))"
    by (simp add: example_env_def example_replies_def)
  have 12: "raise_for_status (ok_response (JObj [(''workflow_runs'', JArr [JObj [(''id'', JInt 42)]])]))
            = Inr ()"
    by (simp add: raise_for_status_def ok_response_def)
  have 13: "json_result (ok_response (JObj [(''workflow_runs'', JArr [JObj [(''id'', JInt 42)]])]))
            = Inr (JObj [(''workflow_runs'', JArr [JObj [(''id'', JInt 42)]])])"
    by (simp add: ok_response_def)
  have 5: "fst (trigger_github_workflow example_env (dict_get example_body ''environment'' JNull)
                  (dict_get example_body ''rollback_type'' (JStr ''terraform''))
                  (JStr ''abc123d'') []) = Inr (str_int 42)"
    unfolding e r
    by (simp add: trigger_correlated [OF 9 10 11 12 13] dict_get_def)
  have ts: "str_int 1700000000 = ''1700000000''"
    by (simp add: str_int_def str_nat.simps digit_def)
  have a: "statusCode (fst (lambda_handler ?E example_event)) = 200"
    using C6_audit_failures_absorbed [where E = example_env and d = outage
        and event = example_event and kvs = example_body and resolved = "JStr ''abc123d''"
        and w = "str_int 42"] 1 2 3 4 5
    by blast
  have b: "fst (log_rollback_request ?E
            (JStr ''u@example.com'') (JStr ''prod'') (JStr ''terraform'') (JStr ''abc123d'')
            (JStr ''Manual rollback via UI'') [])
       = Inr ''audit-1700000000''"
    using C6_audit_failures_absorbed [where E = ?E and user_id = "JStr ''u@example.com''"
        and env = "JStr ''prod''" and rtype = "JStr ''terraform''" and tag = "JStr ''abc123d''"
        and why = "JStr ''Manual rollback via UI''" and t = "[]"]
    by (simp add: outage_def example_env_def ts)
  have c: "update_audit_log ?E ''audit-1700000000'' ''42'' []
       = (Inr (), [audit_update example_env ''audit-1700000000'' ''42'',
                   Print ''Error updating audit log: ServiceUnavailable''])"
    using C6_audit_failures_absorbed [where E = ?E and audit_id = "''audit-1700000000''"
        and workflow_run_id = "''42''" and t = "[]"
        and e = "ClientError ''ServiceUnavailable''"]
    by (simp add: outage_def audit_update_def prod_eq_iff)
  have d: "fst (lambda_handler (example_env\<lparr>dynamodb_reply := update_outage\<rparr>) example_event)
       = fst (lambda_handler example_env example_event)"
    using C6_audit_failures_absorbed [where E = example_env and d = update_outage
        and event = example_event]
    by (simp add: update_outage_def example_env_def)
  show ?thesis using a b c d by blast
qed
















end
